theory Spec2Isabelle
  imports Main "HOL-Library.Multiset"
begin

section \<open>Values, rows and the table store\<close>

text \<open>
  Request bodies carry JavaScript values. A field that is absent from the body reads
  as \<open>undefined\<close>; JSON itself supplies \<open>null\<close>, booleans, numbers and strings.
  Numbers are restricted to integers.
\<close>

datatype jsval = JUndefined | JNull | JBool bool | JNum int | JStr string

text \<open>JavaScript truthiness, as used by \<open>if (x)\<close>, \<open>!x\<close> and \<open>x || y\<close>.\<close>

fun truthy :: "jsval \<Rightarrow> bool" where
  "truthy JUndefined = False"
| "truthy JNull = False"
| "truthy (JBool b) = b"
| "truthy (JNum n) = (n \<noteq> 0)"
| "truthy (JStr s) = (s \<noteq> [])"

definition js_or :: "jsval \<Rightarrow> jsval \<Rightarrow> jsval" where
  "js_or a b = (if truthy a then a else b)"

text \<open>
  Row identifiers and timestamps are natural numbers: identifiers are only compared
  for equality, timestamps only ordered.
\<close>

type_synonym ident = nat
type_synonym timestamp = nat

record user =
  u_id :: ident
  u_first_name :: jsval
  u_last_name :: jsval
  u_email :: jsval
  u_password :: jsval
  u_role :: jsval
  u_is_approved :: bool
  u_created_at :: timestamp

record course =
  c_id :: ident
  c_teacher_id :: ident
  c_name :: jsval
  c_description :: jsval
  c_subject :: jsval
  c_is_active :: jsval
  c_created_at :: timestamp
  c_updated_at :: timestamp

record enrollment =
  e_id :: ident
  e_student_id :: ident
  e_course_id :: ident
  e_enrolled_at :: timestamp

record assignment =
  a_id :: ident
  a_course_id :: ident
  a_title :: jsval
  a_description :: jsval
  a_due_date :: jsval
  a_max_points :: jsval

record submission =
  s_id :: ident
  s_assignment_id :: ident
  s_student_id :: ident
  s_content :: jsval
  s_submitted_at :: timestamp
  s_grade :: "int option"
  s_feedback :: jsval
  s_graded_at :: "timestamp option"

record message =
  m_id :: ident
  m_sender_id :: ident
  m_receiver_id :: ident
  m_content :: jsval
  m_created_at :: timestamp
  m_is_read :: bool

text \<open>
  Modelled from the spec: the data store client (\<open>require('../database')\<close>) and the
  tables behind it. The store is the six named record collections of the spec, each a
  list of rows; a filtered read is \<open>filter\<close>, an update rewrites the matching rows
  (with no column supplied it rewrites nothing), a delete drops them, an insert appends
  a row whose id is drawn from \<open>next_id\<close> and whose unsupplied columns take their
  defaults. The only constraints of the store that are modelled are the two the spec
  names: uniqueness of the (student, course) pair of an enrollment and of the email of
  a user (on insert and on update); otherwise a column accepts any value a route hands
  to it. Connection failures of the remote store are not modelled, and a read returns
  whole rows (the column lists of \<open>select\<close> are not modelled except where a
  route builds its answer from them).
\<close>

record store =
  users :: "user list"
  courses :: "course list"
  enrollments :: "enrollment list"
  assignments :: "assignment list"
  submissions :: "submission list"
  messages :: "message list"
  next_id :: ident

text \<open>
  The client's \<open>.single()\<close>: the row when the query matched exactly one row,
  otherwise no data (and an error object).
\<close>

definition single :: "'a list \<Rightarrow> 'a option" where
  "single rows = (case rows of [r] \<Rightarrow> Some r | _ \<Rightarrow> None)"

section \<open>Requests, replies and the gates\<close>

record session_user =
  su_id :: ident
  su_firstName :: jsval
  su_lastName :: jsval
  su_email :: jsval
  su_role :: jsval
  su_isApproved :: bool

record req =
  session_user :: "session_user option"
  path :: string

text \<open>
  \<open>Fail n msg\<close> is \<open>res.status(n).json({ error: msg })\<close>, \<open>Redirect p\<close> is
  \<open>res.redirect(p)\<close>, and \<open>Ok payload\<close> is \<open>res.json(payload)\<close> with status 200.
\<close>

datatype 'a reply = Fail nat string | Redirect string | Ok 'a

fun status :: "'a reply \<Rightarrow> nat" where
  "status (Fail n msg) = n"
| "status (Redirect p) = 302"
| "status (Ok x) = 200"

text \<open>A gate returns \<open>None\<close> when it calls \<open>next()\<close> and the reply otherwise.\<close>

definition requireAuth :: "req \<Rightarrow> 'a reply option" where
  "requireAuth rq =
     (case session_user rq of
        None \<Rightarrow>
          (if take 5 (path rq) = ''/api/'' then Some (Fail 401 ''Not authenticated'')
           else Some (Redirect ''/login''))
      | Some u \<Rightarrow> None)"

definition requireRole :: "jsval list \<Rightarrow> req \<Rightarrow> 'a reply option" where
  "requireRole roles rq =
     (case session_user rq of
        None \<Rightarrow> Some (Fail 401 ''Not authenticated'')
      | Some u \<Rightarrow>
          (if su_role u \<notin> set roles then Some (Fail 403 ''Insufficient permissions'')
           else None))"

definition requireApproved :: "req \<Rightarrow> store \<Rightarrow> 'a reply option" where
  "requireApproved rq s =
     (case session_user rq of
        None \<Rightarrow> Some (Fail 401 ''Not authenticated'')
      | Some su \<Rightarrow>
          (if su_role su = JStr ''student'' \<or> su_role su = JStr ''master_teacher'' then None
           else
             (case single (filter (\<lambda>u. u_id u = su_id su) (users s)) of
                None \<Rightarrow> Some (Fail 403 ''Your account is pending admin approval'')
              | Some u \<Rightarrow>
                  (if \<not> u_is_approved u
                   then Some (Fail 403 ''Your account is pending admin approval'')
                   else None))))"

section \<open>Course router\<close>

record course_body =
  cb_name :: jsval
  cb_description :: jsval
  cb_subject :: jsval
  cb_is_active :: jsval

text \<open>The object handed to \<open>.update(...)\<close> on courses: a key is present or not.\<close>

record course_updates =
  cu_updated_at :: "timestamp option"
  cu_name :: "jsval option"
  cu_description :: "jsval option"
  cu_subject :: "jsval option"
  cu_is_active :: "jsval option"

definition present :: "jsval \<Rightarrow> jsval option" where
  "present v = (if v \<noteq> JUndefined then Some v else None)"

definition set_col :: "'a option \<Rightarrow> 'a \<Rightarrow> 'a" where
  "set_col upd old = (case upd of None \<Rightarrow> old | Some v \<Rightarrow> v)"

definition apply_course_updates :: "course_updates \<Rightarrow> course \<Rightarrow> course" where
  "apply_course_updates up c =
     c\<lparr> c_updated_at := set_col (cu_updated_at up) (c_updated_at c),
        c_name := set_col (cu_name up) (c_name c),
        c_description := set_col (cu_description up) (c_description c),
        c_subject := set_col (cu_subject up) (c_subject c),
        c_is_active := set_col (cu_is_active up) (c_is_active c) \<rparr>"

definition update_courses :: "course_updates \<Rightarrow> (course \<Rightarrow> bool) \<Rightarrow> store \<Rightarrow> store" where
  "update_courses up P s =
     s\<lparr> courses := map (\<lambda>c. if P c then apply_course_updates up c else c) (courses s) \<rparr>"

text \<open>
  Insert into courses; \<open>is_active\<close> and the two timestamps are not supplied by the
  route and take the store's defaults (active, current time).
\<close>

definition insert_course :: "ident \<Rightarrow> jsval \<Rightarrow> jsval \<Rightarrow> jsval \<Rightarrow> timestamp \<Rightarrow> store
    \<Rightarrow> course \<times> store" where
  "insert_course tid name description subject now s =
     (let c = \<lparr> c_id = next_id s, c_teacher_id = tid, c_name = name,
                c_description = description, c_subject = subject,
                c_is_active = JBool True, c_created_at = now, c_updated_at = now \<rparr>
      in (c, s\<lparr> courses := courses s @ [c], next_id := Suc (next_id s) \<rparr>))"

text \<open>\<open>POST /api/courses\<close>: create a course.\<close>

definition post_course_handler :: "session_user \<Rightarrow> course_body \<Rightarrow> timestamp \<Rightarrow> store
    \<Rightarrow> course reply \<times> store" where
  "post_course_handler su body now s =
     (if \<not> truthy (cb_name body) then (Fail 400 ''Course name is required'', s)
      else
        (let (c, s') = insert_course (su_id su) (cb_name body)
                         (js_or (cb_description body) (JStr ''''))
                         (js_or (cb_subject body) (JStr '''')) now s
         in (Ok c, s')))"

definition post_course :: "req \<Rightarrow> course_body \<Rightarrow> timestamp \<Rightarrow> store \<Rightarrow> course reply \<times> store" where
  "post_course rq body now s =
     (case requireAuth rq of Some r \<Rightarrow> (r, s) | None \<Rightarrow>
     (case requireRole [JStr ''teacher'', JStr ''master_teacher''] rq of Some r \<Rightarrow> (r, s) | None \<Rightarrow>
     (case requireApproved rq s of Some r \<Rightarrow> (r, s) | None \<Rightarrow>
     (case session_user rq of None \<Rightarrow> (Fail 500 ''Failed to create course'', s)
      | Some su \<Rightarrow> post_course_handler su body now s))))"

text \<open>
  The ownership check of the course routes: the caller's role is \<open>teacher\<close> and the
  course is missing or belongs to another teacher.
\<close>

definition not_your_course :: "session_user \<Rightarrow> ident \<Rightarrow> store \<Rightarrow> bool" where
  "not_your_course su cid s =
     (su_role su = JStr ''teacher'' \<and>
      (case single (filter (\<lambda>c. c_id c = cid) (courses s)) of
         None \<Rightarrow> True
       | Some c \<Rightarrow> c_teacher_id c \<noteq> su_id su))"

text \<open>\<open>PUT /api/courses/:id\<close>: update a course.\<close>

definition put_course_handler :: "session_user \<Rightarrow> ident \<Rightarrow> course_body \<Rightarrow> timestamp \<Rightarrow> store
    \<Rightarrow> course reply \<times> store" where
  "put_course_handler su cid body now s =
     (if not_your_course su cid s then (Fail 403 ''Not your course'', s)
      else
        (let updates = \<lparr> cu_updated_at = Some now,
                         cu_name = present (cb_name body),
                         cu_description = present (cb_description body),
                         cu_subject = present (cb_subject body),
                         cu_is_active = present (cb_is_active body) \<rparr>;
             s' = update_courses updates (\<lambda>c. c_id c = cid) s
         in (case single (filter (\<lambda>c. c_id c = cid) (courses s')) of
               None \<Rightarrow> (Fail 500 ''Failed to update course'', s')
             | Some c \<Rightarrow> (Ok c, s'))))"

definition put_course :: "req \<Rightarrow> ident \<Rightarrow> course_body \<Rightarrow> timestamp \<Rightarrow> store \<Rightarrow> course reply \<times> store" where
  "put_course rq cid body now s =
     (case requireAuth rq of Some r \<Rightarrow> (r, s) | None \<Rightarrow>
     (case requireRole [JStr ''teacher'', JStr ''master_teacher''] rq of Some r \<Rightarrow> (r, s) | None \<Rightarrow>
     (case session_user rq of None \<Rightarrow> (Fail 500 ''Failed to update course'', s)
      | Some su \<Rightarrow> put_course_handler su cid body now s)))"

text \<open>\<open>DELETE /api/courses/:id\<close>: deactivate a course.\<close>

definition delete_course_handler :: "session_user \<Rightarrow> ident \<Rightarrow> timestamp \<Rightarrow> store
    \<Rightarrow> unit reply \<times> store" where
  "delete_course_handler su cid now s =
     (if not_your_course su cid s then (Fail 403 ''Not your course'', s)
      else
        (let updates = \<lparr> cu_updated_at = Some now, cu_name = None, cu_description = None,
                         cu_subject = None, cu_is_active = Some (JBool False) \<rparr>
         in (Ok (), update_courses updates (\<lambda>c. c_id c = cid) s)))"

definition delete_course :: "req \<Rightarrow> ident \<Rightarrow> timestamp \<Rightarrow> store \<Rightarrow> unit reply \<times> store" where
  "delete_course rq cid now s =
     (case requireAuth rq of Some r \<Rightarrow> (r, s) | None \<Rightarrow>
     (case requireRole [JStr ''teacher'', JStr ''master_teacher''] rq of Some r \<Rightarrow> (r, s) | None \<Rightarrow>
     (case session_user rq of None \<Rightarrow> (Fail 500 ''Failed to delete course'', s)
      | Some su \<Rightarrow> delete_course_handler su cid now s)))"

text \<open>
  Insert into enrollments. The store rejects a second row for the same
  (student, course) pair with the uniqueness-violation code \<open>23505\<close>.
\<close>

definition insert_enrollment :: "ident \<Rightarrow> ident \<Rightarrow> timestamp \<Rightarrow> store
    \<Rightarrow> (string + enrollment) \<times> store" where
  "insert_enrollment sid cid now s =
     (if \<exists>e \<in> set (enrollments s). e_student_id e = sid \<and> e_course_id e = cid
      then (Inl ''23505'', s)
      else
        (let e = \<lparr> e_id = next_id s, e_student_id = sid, e_course_id = cid,
                    e_enrolled_at = now \<rparr>
         in (Inr e, s\<lparr> enrollments := enrollments s @ [e], next_id := Suc (next_id s) \<rparr>)))"

text \<open>\<open>POST /api/courses/:id/enroll\<close>: the student enrolls.\<close>

definition post_enroll_handler :: "session_user \<Rightarrow> ident \<Rightarrow> timestamp \<Rightarrow> store
    \<Rightarrow> enrollment reply \<times> store" where
  "post_enroll_handler su cid now s =
     (case insert_enrollment (su_id su) cid now s of
        (Inl code, s') \<Rightarrow>
          (if code = ''23505'' then (Fail 400 ''Already enrolled in this course'', s')
           else (Fail 500 ''Failed to enroll'', s'))
      | (Inr e, s') \<Rightarrow> (Ok e, s'))"

definition post_enroll :: "req \<Rightarrow> ident \<Rightarrow> timestamp \<Rightarrow> store \<Rightarrow> enrollment reply \<times> store" where
  "post_enroll rq cid now s =
     (case requireAuth rq of Some r \<Rightarrow> (r, s) | None \<Rightarrow>
     (case requireRole [JStr ''student''] rq of Some r \<Rightarrow> (r, s) | None \<Rightarrow>
     (case session_user rq of None \<Rightarrow> (Fail 500 ''Failed to enroll'', s)
      | Some su \<Rightarrow> post_enroll_handler su cid now s)))"

text \<open>\<open>DELETE /api/courses/:id/unenroll\<close>: the student unenrolls.\<close>

definition delete_unenroll_handler :: "session_user \<Rightarrow> ident \<Rightarrow> store \<Rightarrow> unit reply \<times> store" where
  "delete_unenroll_handler su cid s =
     (Ok (), s\<lparr> enrollments :=
                  filter (\<lambda>e. \<not> (e_student_id e = su_id su \<and> e_course_id e = cid))
                    (enrollments s) \<rparr>)"

definition delete_unenroll :: "req \<Rightarrow> ident \<Rightarrow> store \<Rightarrow> unit reply \<times> store" where
  "delete_unenroll rq cid s =
     (case requireAuth rq of Some r \<Rightarrow> (r, s) | None \<Rightarrow>
     (case requireRole [JStr ''student''] rq of Some r \<Rightarrow> (r, s) | None \<Rightarrow>
     (case session_user rq of None \<Rightarrow> (Fail 500 ''Failed to unenroll'', s)
      | Some su \<Rightarrow> delete_unenroll_handler su cid s)))"

section \<open>Assignment router\<close>

definition verifyTeacherOwns :: "ident \<Rightarrow> ident \<Rightarrow> store \<Rightarrow> bool" where
  "verifyTeacherOwns courseId userId s =
     (case single (filter (\<lambda>c. c_id c = courseId) (courses s)) of
        None \<Rightarrow> False
      | Some c \<Rightarrow> c_teacher_id c = userId)"

definition verifyEnrolled :: "ident \<Rightarrow> ident \<Rightarrow> store \<Rightarrow> bool" where
  "verifyEnrolled courseId studentId s =
     (single (filter (\<lambda>e. e_course_id e = courseId \<and> e_student_id e = studentId)
                (enrollments s)) \<noteq> None)"

text \<open>
  The body of an assignment request. \<open>course_id\<close> is an identifier; \<open>None\<close> stands
  for a missing or falsy one.
\<close>

record assignment_body =
  ab_course_id :: "ident option"
  ab_title :: jsval
  ab_description :: jsval
  ab_due_date :: jsval
  ab_max_points :: jsval

record assignment_updates =
  au_title :: "jsval option"
  au_description :: "jsval option"
  au_due_date :: "jsval option"
  au_max_points :: "jsval option"

definition apply_assignment_updates :: "assignment_updates \<Rightarrow> assignment \<Rightarrow> assignment" where
  "apply_assignment_updates up a =
     a\<lparr> a_title := set_col (au_title up) (a_title a),
        a_description := set_col (au_description up) (a_description a),
        a_due_date := set_col (au_due_date up) (a_due_date a),
        a_max_points := set_col (au_max_points up) (a_max_points a) \<rparr>"

definition update_assignments :: "assignment_updates \<Rightarrow> (assignment \<Rightarrow> bool) \<Rightarrow> store \<Rightarrow> store" where
  "update_assignments up P s =
     s\<lparr> assignments :=
          map (\<lambda>a. if P a then apply_assignment_updates up a else a) (assignments s) \<rparr>"

definition insert_assignment :: "ident \<Rightarrow> jsval \<Rightarrow> jsval \<Rightarrow> jsval \<Rightarrow> jsval \<Rightarrow> store
    \<Rightarrow> assignment \<times> store" where
  "insert_assignment cid title description due_date max_points s =
     (let a = \<lparr> a_id = next_id s, a_course_id = cid, a_title = title,
                a_description = description, a_due_date = due_date,
                a_max_points = max_points \<rparr>
      in (a, s\<lparr> assignments := assignments s @ [a], next_id := Suc (next_id s) \<rparr>))"

text \<open>\<open>POST /api/assignments\<close>: create an assignment.\<close>

definition post_assignment_handler :: "session_user \<Rightarrow> assignment_body \<Rightarrow> store
    \<Rightarrow> assignment reply \<times> store" where
  "post_assignment_handler su body s =
     (case ab_course_id body of
        None \<Rightarrow> (Fail 400 ''Course and title are required'', s)
      | Some course_id \<Rightarrow>
          (if \<not> truthy (ab_title body) then (Fail 400 ''Course and title are required'', s)
           else if su_role su = JStr ''teacher'' \<and> \<not> verifyTeacherOwns course_id (su_id su) s
           then (Fail 403 ''Not your course'', s)
           else
             (let (a, s') = insert_assignment course_id (ab_title body)
                              (js_or (ab_description body) (JStr ''''))
                              (js_or (ab_due_date body) JNull)
                              (js_or (ab_max_points body) (JNum 100)) s
              in (Ok a, s'))))"

definition post_assignment :: "req \<Rightarrow> assignment_body \<Rightarrow> store \<Rightarrow> assignment reply \<times> store" where
  "post_assignment rq body s =
     (case requireAuth rq of Some r \<Rightarrow> (r, s) | None \<Rightarrow>
     (case requireRole [JStr ''teacher'', JStr ''master_teacher''] rq of Some r \<Rightarrow> (r, s) | None \<Rightarrow>
     (case requireApproved rq s of Some r \<Rightarrow> (r, s) | None \<Rightarrow>
     (case session_user rq of None \<Rightarrow> (Fail 500 ''Failed to create assignment'', s)
      | Some su \<Rightarrow> post_assignment_handler su body s))))"

text \<open>\<open>PUT /api/assignments/:id\<close>: update an assignment.\<close>

definition put_assignment_handler :: "session_user \<Rightarrow> ident \<Rightarrow> assignment_body \<Rightarrow> store
    \<Rightarrow> assignment reply \<times> store" where
  "put_assignment_handler su aid body s =
     (case single (filter (\<lambda>a. a_id a = aid) (assignments s)) of
        None \<Rightarrow> (Fail 404 ''Assignment not found'', s)
      | Some assignment \<Rightarrow>
          (if su_role su = JStr ''teacher'' \<and>
              \<not> verifyTeacherOwns (a_course_id assignment) (su_id su) s
           then (Fail 403 ''Not your course'', s)
           else
             (let updates = \<lparr> au_title = present (ab_title body),
                              au_description = present (ab_description body),
                              au_due_date = present (ab_due_date body),
                              au_max_points = present (ab_max_points body) \<rparr>;
                  s' = update_assignments updates (\<lambda>a. a_id a = aid) s
              in (case single (filter (\<lambda>a. a_id a = aid) (assignments s')) of
                    None \<Rightarrow> (Fail 500 ''Failed to update assignment'', s')
                  | Some a \<Rightarrow> (Ok a, s')))))"

definition put_assignment :: "req \<Rightarrow> ident \<Rightarrow> assignment_body \<Rightarrow> store \<Rightarrow> assignment reply \<times> store" where
  "put_assignment rq aid body s =
     (case requireAuth rq of Some r \<Rightarrow> (r, s) | None \<Rightarrow>
     (case requireRole [JStr ''teacher'', JStr ''master_teacher''] rq of Some r \<Rightarrow> (r, s) | None \<Rightarrow>
     (case session_user rq of None \<Rightarrow> (Fail 500 ''Failed to update assignment'', s)
      | Some su \<Rightarrow> put_assignment_handler su aid body s)))"

text \<open>\<open>DELETE /api/assignments/:id\<close>: delete an assignment.\<close>

definition delete_assignment_handler :: "session_user \<Rightarrow> ident \<Rightarrow> store \<Rightarrow> unit reply \<times> store" where
  "delete_assignment_handler su aid s =
     (case single (filter (\<lambda>a. a_id a = aid) (assignments s)) of
        None \<Rightarrow> (Fail 404 ''Assignment not found'', s)
      | Some assignment \<Rightarrow>
          (if su_role su = JStr ''teacher'' \<and>
              \<not> verifyTeacherOwns (a_course_id assignment) (su_id su) s
           then (Fail 403 ''Not your course'', s)
           else (Ok (), s\<lparr> assignments := filter (\<lambda>a. a_id a \<noteq> aid) (assignments s) \<rparr>)))"

definition delete_assignment :: "req \<Rightarrow> ident \<Rightarrow> store \<Rightarrow> unit reply \<times> store" where
  "delete_assignment rq aid s =
     (case requireAuth rq of Some r \<Rightarrow> (r, s) | None \<Rightarrow>
     (case requireRole [JStr ''teacher'', JStr ''master_teacher''] rq of Some r \<Rightarrow> (r, s) | None \<Rightarrow>
     (case session_user rq of None \<Rightarrow> (Fail 500 ''Failed to delete assignment'', s)
      | Some su \<Rightarrow> delete_assignment_handler su aid s)))"

record submission_updates =
  sbu_content :: "jsval option"
  sbu_submitted_at :: "timestamp option"
  sbu_grade :: "int option option"
  sbu_feedback :: "jsval option"
  sbu_graded_at :: "timestamp option option"

definition apply_submission_updates :: "submission_updates \<Rightarrow> submission \<Rightarrow> submission" where
  "apply_submission_updates up x =
     x\<lparr> s_content := set_col (sbu_content up) (s_content x),
        s_submitted_at := set_col (sbu_submitted_at up) (s_submitted_at x),
        s_grade := set_col (sbu_grade up) (s_grade x),
        s_feedback := set_col (sbu_feedback up) (s_feedback x),
        s_graded_at := set_col (sbu_graded_at up) (s_graded_at x) \<rparr>"

definition update_submissions :: "submission_updates \<Rightarrow> (submission \<Rightarrow> bool) \<Rightarrow> store \<Rightarrow> store" where
  "update_submissions up P s =
     s\<lparr> submissions :=
          map (\<lambda>x. if P x then apply_submission_updates up x else x) (submissions s) \<rparr>"

text \<open>
  Insert into submissions. The route supplies assignment, student and content; the
  submitted-at column defaults to the current time, grade, feedback and graded-at to
  null.
\<close>

definition insert_submission :: "ident \<Rightarrow> ident \<Rightarrow> jsval \<Rightarrow> timestamp \<Rightarrow> store
    \<Rightarrow> submission \<times> store" where
  "insert_submission aid sid content now s =
     (let x = \<lparr> s_id = next_id s, s_assignment_id = aid, s_student_id = sid,
                s_content = content, s_submitted_at = now, s_grade = None,
                s_feedback = JNull, s_graded_at = None \<rparr>
      in (x, s\<lparr> submissions := submissions s @ [x], next_id := Suc (next_id s) \<rparr>))"

text \<open>\<open>POST /api/assignments/:id/submit\<close>: the student submits work.\<close>

definition post_submit_handler :: "session_user \<Rightarrow> ident \<Rightarrow> jsval \<Rightarrow> timestamp \<Rightarrow> store
    \<Rightarrow> submission reply \<times> store" where
  "post_submit_handler su aid content now s =
     (if \<not> truthy content then (Fail 400 ''Submission content is required'', s)
      else
        (case single (filter (\<lambda>a. a_id a = aid) (assignments s)) of
           None \<Rightarrow> (Fail 404 ''Assignment not found'', s)
         | Some assignment \<Rightarrow>
             (if \<not> verifyEnrolled (a_course_id assignment) (su_id su) s
              then (Fail 403 ''Not enrolled in this course'', s)
              else
                (case single (filter (\<lambda>x. s_assignment_id x = aid \<and> s_student_id x = su_id su)
                                (submissions s)) of
                   Some existing \<Rightarrow>
                     (let updates = \<lparr> sbu_content = Some content, sbu_submitted_at = Some now,
                                      sbu_grade = None, sbu_feedback = None,
                                      sbu_graded_at = None \<rparr>;
                          s' = update_submissions updates (\<lambda>x. s_id x = s_id existing) s
                      in (case single (filter (\<lambda>x. s_id x = s_id existing) (submissions s')) of
                            None \<Rightarrow> (Fail 500 ''Failed to submit'', s')
                          | Some x \<Rightarrow> (Ok x, s')))
                 | None \<Rightarrow>
                     (let (x, s') = insert_submission aid (su_id su) content now s
                      in (Ok x, s'))))))"

definition post_submit :: "req \<Rightarrow> ident \<Rightarrow> jsval \<Rightarrow> timestamp \<Rightarrow> store \<Rightarrow> submission reply \<times> store" where
  "post_submit rq aid content now s =
     (case requireAuth rq of Some r \<Rightarrow> (r, s) | None \<Rightarrow>
     (case requireRole [JStr ''student''] rq of Some r \<Rightarrow> (r, s) | None \<Rightarrow>
     (case session_user rq of None \<Rightarrow> (Fail 500 ''Failed to submit'', s)
      | Some su \<Rightarrow> post_submit_handler su aid content now s)))"

text \<open>
  \<open>PUT /api/assignments/submissions/:id/grade\<close>: grade a submission. The builtin
  \<open>parseInt\<close> is a parameter; it yields \<open>None\<close> for \<open>NaN\<close>, which the store
  receives as null. A teacher's request for a submission whose assignment is gone
  dereferences null and ends in the route's catch clause.
\<close>

definition put_grade_handler :: "(jsval \<Rightarrow> int option) \<Rightarrow> session_user \<Rightarrow> ident \<Rightarrow> jsval \<Rightarrow> jsval
    \<Rightarrow> timestamp \<Rightarrow> store \<Rightarrow> submission reply \<times> store" where
  "put_grade_handler parseInt su sid grade feedback now s =
     (if grade = JUndefined \<or> grade = JNull then (Fail 400 ''Grade is required'', s)
      else
        (case single (filter (\<lambda>x. s_id x = sid) (submissions s)) of
           None \<Rightarrow> (Fail 404 ''Submission not found'', s)
         | Some submission \<Rightarrow>
             (let assignment = single (filter (\<lambda>a. a_id a = s_assignment_id submission)
                                         (assignments s))
              in if su_role su = JStr ''teacher'' \<and> assignment = None
                 then (Fail 500 ''Failed to grade submission'', s)
                 else if su_role su = JStr ''teacher'' \<and>
                         (case assignment of None \<Rightarrow> True
                          | Some a \<Rightarrow> \<not> verifyTeacherOwns (a_course_id a) (su_id su) s)
                 then (Fail 403 ''Not your course'', s)
                 else
                   (let updates = \<lparr> sbu_content = None, sbu_submitted_at = None,
                                    sbu_grade = Some (parseInt grade),
                                    sbu_feedback = Some (js_or feedback (JStr '''')),
                                    sbu_graded_at = Some (Some now) \<rparr>;
                        s' = update_submissions updates (\<lambda>x. s_id x = sid) s
                    in (case single (filter (\<lambda>x. s_id x = sid) (submissions s')) of
                          None \<Rightarrow> (Fail 500 ''Failed to grade submission'', s')
                        | Some x \<Rightarrow> (Ok x, s'))))))"

definition put_grade :: "(jsval \<Rightarrow> int option) \<Rightarrow> req \<Rightarrow> ident \<Rightarrow> jsval \<Rightarrow> jsval \<Rightarrow> timestamp
    \<Rightarrow> store \<Rightarrow> submission reply \<times> store" where
  "put_grade parseInt rq sid grade feedback now s =
     (case requireAuth rq of Some r \<Rightarrow> (r, s) | None \<Rightarrow>
     (case requireRole [JStr ''teacher'', JStr ''master_teacher''] rq of Some r \<Rightarrow> (r, s) | None \<Rightarrow>
     (case session_user rq of None \<Rightarrow> (Fail 500 ''Failed to grade submission'', s)
      | Some su \<Rightarrow> put_grade_handler parseInt su sid grade feedback now s)))"




section \<open>Messaging router\<close>

text \<open>\<open>GET /api/messages/unread-count\<close>.\<close>

definition get_unread_count_handler :: "session_user \<Rightarrow> store \<Rightarrow> nat reply" where
  "get_unread_count_handler su s =
     Ok (length (filter (\<lambda>m. m_receiver_id m = su_id su \<and> m_is_read m = False) (messages s)))"

definition get_unread_count :: "req \<Rightarrow> store \<Rightarrow> nat reply" where
  "get_unread_count rq s =
     (case requireAuth rq of Some r \<Rightarrow> r | None \<Rightarrow>
     (case session_user rq of None \<Rightarrow> Fail 500 ''Failed to get unread count''
      | Some su \<Rightarrow> get_unread_count_handler su s))"

text \<open>
  \<open>GET /api/messages/conversation/:userId\<close>: the history with a partner, oldest
  first, read before the received messages are marked as read.
\<close>

record conversation =
  cv_partner :: "(jsval \<times> jsval \<times> jsval) option"
  cv_messages :: "message list"

definition get_conversation_handler :: "session_user \<Rightarrow> ident \<Rightarrow> store
    \<Rightarrow> conversation reply \<times> store" where
  "get_conversation_handler su partnerId s =
     (let userId = su_id su;
          msgs = sort_key m_created_at
                   (filter (\<lambda>m. (m_sender_id m = userId \<and> m_receiver_id m = partnerId) \<or>
                                 (m_sender_id m = partnerId \<and> m_receiver_id m = userId))
                      (messages s));
          s' = s\<lparr> messages :=
                    map (\<lambda>m. if m_sender_id m = partnerId \<and> m_receiver_id m = userId \<and>
                                 m_is_read m = False
                              then m\<lparr> m_is_read := True \<rparr> else m) (messages s) \<rparr>;
          partner = map_option (\<lambda>u. (u_first_name u, u_last_name u, u_role u))
                      (single (filter (\<lambda>u. u_id u = partnerId) (users s')))
      in (Ok \<lparr> cv_partner = partner, cv_messages = msgs \<rparr>, s'))"

definition get_conversation :: "req \<Rightarrow> ident \<Rightarrow> store \<Rightarrow> conversation reply \<times> store" where
  "get_conversation rq partnerId s =
     (case requireAuth rq of Some r \<Rightarrow> (r, s) | None \<Rightarrow>
     (case session_user rq of None \<Rightarrow> (Fail 500 ''Failed to load conversation'', s)
      | Some su \<Rightarrow> get_conversation_handler su partnerId s))"

text \<open>
  \<open>POST /api/messages/send\<close>. \<open>receiver_id\<close> is an identifier; \<open>None\<close> stands
  for a missing or falsy one. A new message is unread.
\<close>

definition insert_message :: "ident \<Rightarrow> ident \<Rightarrow> jsval \<Rightarrow> timestamp \<Rightarrow> store \<Rightarrow> message \<times> store" where
  "insert_message sender receiver content now s =
     (let m = \<lparr> m_id = next_id s, m_sender_id = sender, m_receiver_id = receiver,
                m_content = content, m_created_at = now, m_is_read = False \<rparr>
      in (m, s\<lparr> messages := messages s @ [m], next_id := Suc (next_id s) \<rparr>))"

definition post_send_handler :: "session_user \<Rightarrow> ident option \<Rightarrow> jsval \<Rightarrow> timestamp \<Rightarrow> store
    \<Rightarrow> message reply \<times> store" where
  "post_send_handler su receiver_id content now s =
     (case receiver_id of
        None \<Rightarrow> (Fail 400 ''Receiver and content are required'', s)
      | Some rid \<Rightarrow>
          (if \<not> truthy content then (Fail 400 ''Receiver and content are required'', s)
           else
             (case single (filter (\<lambda>u. u_id u = rid) (users s)) of
                None \<Rightarrow> (Fail 404 ''Recipient not found'', s)
              | Some receiver \<Rightarrow>
                  (let (m, s') = insert_message (su_id su) rid content now s
                   in (Ok m, s')))))"

definition post_send :: "req \<Rightarrow> ident option \<Rightarrow> jsval \<Rightarrow> timestamp \<Rightarrow> store \<Rightarrow> message reply \<times> store" where
  "post_send rq receiver_id content now s =
     (case requireAuth rq of Some r \<Rightarrow> (r, s) | None \<Rightarrow>
     (case session_user rq of None \<Rightarrow> (Fail 500 ''Failed to send message'', s)
      | Some su \<Rightarrow> post_send_handler su receiver_id content now s))"

section \<open>Auth router\<close>

text \<open>
  The hashing library is a pair of parameters: \<open>hash\<close> for \<open>bcrypt.hash\<close> and
  \<open>compare\<close> for \<open>bcrypt.compare\<close>. \<open>None\<close> is a call that throws, which the
  route's catch clause answers with 500.
\<close>

record register_body =
  rb_firstName :: jsval
  rb_lastName :: jsval
  rb_email :: jsval
  rb_password :: jsval
  rb_role :: jsval

text \<open>
  Insert into users; the email column is unique, and a second row with the same email
  is refused.
\<close>

definition insert_user :: "jsval \<Rightarrow> jsval \<Rightarrow> jsval \<Rightarrow> jsval \<Rightarrow> jsval \<Rightarrow> bool \<Rightarrow> timestamp \<Rightarrow> store
    \<Rightarrow> (string + user) \<times> store" where
  "insert_user first_name last_name email password role is_approved now s =
     (if \<exists>u \<in> set (users s). u_email u = email then (Inl ''23505'', s)
      else
        (let u = \<lparr> u_id = next_id s, u_first_name = first_name, u_last_name = last_name,
                    u_email = email, u_password = password, u_role = role,
                    u_is_approved = is_approved, u_created_at = now \<rparr>
         in (Inr u, s\<lparr> users := users s @ [u], next_id := Suc (next_id s) \<rparr>)))"

text \<open>\<open>password.length < 6\<close>; a value without a length compares false.\<close>

definition too_short :: "jsval \<Rightarrow> bool" where
  "too_short password = (case password of JStr p \<Rightarrow> length p < 6 | _ \<Rightarrow> False)"

text \<open>\<open>POST /auth/register\<close>.\<close>

definition register :: "(jsval \<Rightarrow> jsval option) \<Rightarrow> req \<Rightarrow> register_body \<Rightarrow> timestamp \<Rightarrow> store
    \<Rightarrow> string reply \<times> req \<times> store" where
  "register hash rq body now s =
     (if \<not> truthy (rb_firstName body) \<or> \<not> truthy (rb_lastName body) \<or>
         \<not> truthy (rb_email body) \<or> \<not> truthy (rb_password body)
      then (Fail 400 ''All fields are required'', rq, s)
      else if too_short (rb_password body)
      then (Fail 400 ''Password must be at least 6 characters'', rq, s)
      else if single (filter (\<lambda>u. u_email u = rb_email body) (users s)) \<noteq> None
      then (Fail 400 ''An account with this email already exists'', rq, s)
      else
        (case hash (rb_password body) of
           None \<Rightarrow> (Fail 500 ''Registration failed. Please try again.'', rq, s)
         | Some hashedPassword \<Rightarrow>
             (let userRole = (if rb_role body \<in> set [JStr ''student'', JStr ''teacher'']
                              then rb_role body else JStr ''student'');
                  isApproved = (userRole = JStr ''student'')
              in (case insert_user (rb_firstName body) (rb_lastName body) (rb_email body)
                         hashedPassword userRole isApproved now s of
                    (Inl code, s') \<Rightarrow> (Fail 500 ''Registration failed. Please try again.'', rq, s')
                  | (Inr newUser, s') \<Rightarrow>
                      (Ok ''/dashboard'',
                       rq\<lparr> session_user :=
                             Some \<lparr> su_id = u_id newUser, su_firstName = rb_firstName body,
                                    su_lastName = rb_lastName body, su_email = rb_email body,
                                    su_role = userRole, su_isApproved = isApproved \<rparr> \<rparr>,
                       s')))))"

text \<open>
  \<open>POST /auth/login\<close>. The result carries the reply and the request with its
  session after the call; the store is only read.
\<close>

definition login :: "(jsval \<Rightarrow> jsval \<Rightarrow> bool option) \<Rightarrow> req \<Rightarrow> jsval \<Rightarrow> jsval \<Rightarrow> store
    \<Rightarrow> string reply \<times> req" where
  "login compare rq email password s =
     (if \<not> truthy email \<or> \<not> truthy password
      then (Fail 400 ''Email and password are required'', rq)
      else
        (case single (filter (\<lambda>u. u_email u = email) (users s)) of
           None \<Rightarrow> (Fail 401 ''Invalid email or password'', rq)
         | Some u \<Rightarrow>
             (case compare password (u_password u) of
                None \<Rightarrow> (Fail 500 ''Login failed. Please try again.'', rq)
              | Some valid \<Rightarrow>
                  (if \<not> valid then (Fail 401 ''Invalid email or password'', rq)
                   else (Ok ''/dashboard'',
                         rq\<lparr> session_user :=
                               Some \<lparr> su_id = u_id u, su_firstName = u_first_name u,
                                      su_lastName = u_last_name u, su_email = u_email u,
                                      su_role = u_role u, su_isApproved = u_is_approved u \<rparr> \<rparr>)))))"

section \<open>Admin router\<close>

record user_body =
  ub_first_name :: jsval
  ub_last_name :: jsval
  ub_email :: jsval
  ub_role :: jsval

record user_updates =
  uu_first_name :: "jsval option"
  uu_last_name :: "jsval option"
  uu_email :: "jsval option"
  uu_role :: "jsval option"
  uu_is_approved :: "bool option"

definition if_truthy :: "jsval \<Rightarrow> jsval option" where
  "if_truthy v = (if truthy v then Some v else None)"

definition apply_user_updates :: "user_updates \<Rightarrow> user \<Rightarrow> user" where
  "apply_user_updates up u =
     u\<lparr> u_first_name := set_col (uu_first_name up) (u_first_name u),
        u_last_name := set_col (uu_last_name up) (u_last_name u),
        u_email := set_col (uu_email up) (u_email u),
        u_role := set_col (uu_role up) (u_role u),
        u_is_approved := set_col (uu_is_approved up) (u_is_approved u) \<rparr>"

text \<open>
  Modelled from the spec: the update of the users table by the data store client. The
  email column is unique, on update as on insert: the store refuses, with the
  uniqueness-violation code, an update that supplies an email when a row it rewrites
  would share that email with a row it leaves alone, or when it rewrites more than one
  row.
\<close>

definition email_taken :: "user_updates \<Rightarrow> (user \<Rightarrow> bool) \<Rightarrow> user list \<Rightarrow> bool" where
  "email_taken up P us =
     (case uu_email up of
        None \<Rightarrow> False
      | Some e \<Rightarrow>
          (list_ex P us \<and> list_ex (\<lambda>v. \<not> P v \<and> u_email v = e) us) \<or>
          1 < length (filter P us))"

definition update_users :: "user_updates \<Rightarrow> (user \<Rightarrow> bool) \<Rightarrow> store \<Rightarrow> string + store" where
  "update_users up P s =
     (if email_taken up P (users s) then Inl ''23505''
      else Inr (s\<lparr> users := map (\<lambda>u. if P u then apply_user_updates up u else u) (users s) \<rparr>))"

text \<open>The gates in front of every admin route.\<close>

definition admin_gate :: "req \<Rightarrow> 'a reply option" where
  "admin_gate rq =
     (case requireAuth rq of Some r \<Rightarrow> Some r
      | None \<Rightarrow> requireRole [JStr ''master_teacher''] rq)"

text \<open>\<open>PUT /api/admin/users/:id\<close>: edit user details.\<close>

definition put_user_handler :: "session_user \<Rightarrow> ident \<Rightarrow> user_body \<Rightarrow> store \<Rightarrow> user reply \<times> store" where
  "put_user_handler su uid body s =
     (if uid = su_id su \<and> truthy (ub_role body) \<and> ub_role body \<noteq> JStr ''master_teacher''
      then (Fail 400 ''Cannot change your own admin role'', s)
      else
        (let updates = \<lparr> uu_first_name = if_truthy (ub_first_name body),
                         uu_last_name = if_truthy (ub_last_name body),
                         uu_email = if_truthy (ub_email body),
                         uu_role = if_truthy (ub_role body),
                         uu_is_approved = None \<rparr>
         in (case update_users updates (\<lambda>u. u_id u = uid) s of
               Inl code \<Rightarrow> (Fail 500 ''Failed to update user'', s)
             | Inr s' \<Rightarrow>
                 (case single (filter (\<lambda>u. u_id u = uid) (users s')) of
                    None \<Rightarrow> (Fail 500 ''Failed to update user'', s')
                  | Some u \<Rightarrow> (Ok u, s')))))"

definition put_user :: "req \<Rightarrow> ident \<Rightarrow> user_body \<Rightarrow> store \<Rightarrow> user reply \<times> store" where
  "put_user rq uid body s =
     (case admin_gate rq of Some r \<Rightarrow> (r, s) | None \<Rightarrow>
     (case session_user rq of None \<Rightarrow> (Fail 500 ''Failed to update user'', s)
      | Some su \<Rightarrow> put_user_handler su uid body s))"

text \<open>\<open>DELETE /api/admin/users/:id\<close>.\<close>

definition delete_user_handler :: "session_user \<Rightarrow> ident \<Rightarrow> store \<Rightarrow> unit reply \<times> store" where
  "delete_user_handler su uid s =
     (if uid = su_id su then (Fail 400 ''Cannot delete your own account'', s)
      else (Ok (), s\<lparr> users := filter (\<lambda>u. u_id u \<noteq> uid) (users s) \<rparr>))"

definition delete_user :: "req \<Rightarrow> ident \<Rightarrow> store \<Rightarrow> unit reply \<times> store" where
  "delete_user rq uid s =
     (case admin_gate rq of Some r \<Rightarrow> (r, s) | None \<Rightarrow>
     (case session_user rq of None \<Rightarrow> (Fail 500 ''Failed to delete user'', s)
      | Some su \<Rightarrow> delete_user_handler su uid s))"

text \<open>
  \<open>POST /api/admin/users/:id/approve\<close>, \<open>.../reject\<close> and \<open>.../promote\<close>: one
  update of the users table each, answered with the single updated row.
\<close>

definition admin_update :: "string \<Rightarrow> user_updates \<Rightarrow> (user \<Rightarrow> bool) \<Rightarrow> (user \<Rightarrow> bool) \<Rightarrow> req
    \<Rightarrow> store \<Rightarrow> user reply \<times> store" where
  "admin_update failure updates P P' rq s =
     (case admin_gate rq of Some r \<Rightarrow> (r, s) | None \<Rightarrow>
       (case update_users updates P s of
          Inl code \<Rightarrow> (Fail 500 failure, s)
        | Inr s' \<Rightarrow>
            (case single (filter P' (users s')) of
               None \<Rightarrow> (Fail 500 failure, s')
             | Some u \<Rightarrow> (Ok u, s'))))"

definition post_approve :: "req \<Rightarrow> ident \<Rightarrow> store \<Rightarrow> user reply \<times> store" where
  "post_approve rq uid s =
     admin_update ''Failed to approve teacher''
       \<lparr> uu_first_name = None, uu_last_name = None, uu_email = None, uu_role = None,
         uu_is_approved = Some True \<rparr>
       (\<lambda>u. u_id u = uid \<and> u_role u = JStr ''teacher'')
       (\<lambda>u. u_id u = uid \<and> u_role u = JStr ''teacher'') rq s"

definition post_reject :: "req \<Rightarrow> ident \<Rightarrow> store \<Rightarrow> user reply \<times> store" where
  "post_reject rq uid s =
     admin_update ''Failed to reject teacher''
       \<lparr> uu_first_name = None, uu_last_name = None, uu_email = None, uu_role = None,
         uu_is_approved = Some False \<rparr>
       (\<lambda>u. u_id u = uid \<and> u_role u = JStr ''teacher'')
       (\<lambda>u. u_id u = uid \<and> u_role u = JStr ''teacher'') rq s"

definition post_promote :: "req \<Rightarrow> ident \<Rightarrow> store \<Rightarrow> user reply \<times> store" where
  "post_promote rq uid s =
     admin_update ''Failed to promote user''
       \<lparr> uu_first_name = None, uu_last_name = None, uu_email = None,
         uu_role = Some (JStr ''master_teacher''), uu_is_approved = Some True \<rparr>
       (\<lambda>u. u_id u = uid) (\<lambda>u. u_id u = uid) rq s"

section \<open>The API as a transition system\<close>

text \<open>
  One constructor for each route that writes to the store, with the request it is
  called with. A step keeps the store the route leaves behind, whatever the reply.
\<close>

datatype op =
    Register "jsval \<Rightarrow> jsval option" req register_body timestamp
  | PostCourse req course_body timestamp
  | PutCourse req ident course_body timestamp
  | DeleteCourse req ident timestamp
  | PostEnroll req ident timestamp
  | DeleteUnenroll req ident
  | PostAssignment req assignment_body
  | PutAssignment req ident assignment_body
  | DeleteAssignment req ident
  | PostSubmit req ident jsval timestamp
  | PutGrade "jsval \<Rightarrow> int option" req ident jsval jsval timestamp
  | GetConversation req ident
  | PostSend req "ident option" jsval timestamp
  | PutUser req ident user_body
  | DeleteUser req ident
  | PostApprove req ident
  | PostReject req ident
  | PostPromote req ident

fun api_step :: "op \<Rightarrow> store \<Rightarrow> store" where
  "api_step (Register hash rq body now) s = snd (snd (register hash rq body now s))"
| "api_step (PostCourse rq body now) s = snd (post_course rq body now s)"
| "api_step (PutCourse rq cid body now) s = snd (put_course rq cid body now s)"
| "api_step (DeleteCourse rq cid now) s = snd (delete_course rq cid now s)"
| "api_step (PostEnroll rq cid now) s = snd (post_enroll rq cid now s)"
| "api_step (DeleteUnenroll rq cid) s = snd (delete_unenroll rq cid s)"
| "api_step (PostAssignment rq body) s = snd (post_assignment rq body s)"
| "api_step (PutAssignment rq aid body) s = snd (put_assignment rq aid body s)"
| "api_step (DeleteAssignment rq aid) s = snd (delete_assignment rq aid s)"
| "api_step (PostSubmit rq aid content now) s = snd (post_submit rq aid content now s)"
| "api_step (PutGrade parseInt rq sid grade feedback now) s =
     snd (put_grade parseInt rq sid grade feedback now s)"
| "api_step (GetConversation rq partnerId) s = snd (get_conversation rq partnerId s)"
| "api_step (PostSend rq receiver_id content now) s = snd (post_send rq receiver_id content now s)"
| "api_step (PutUser rq uid body) s = snd (put_user rq uid body s)"
| "api_step (DeleteUser rq uid) s = snd (delete_user rq uid s)"
| "api_step (PostApprove rq uid) s = snd (post_approve rq uid s)"
| "api_step (PostReject rq uid) s = snd (post_reject rq uid s)"
| "api_step (PostPromote rq uid) s = snd (post_promote rq uid s)"

definition run :: "op list \<Rightarrow> store \<Rightarrow> store" where
  "run ops s = fold api_step ops s"

section \<open>A small school\<close>

text \<open>
  The end-to-end scenario of the spec, used to instantiate the theorems below: the
  store starts with one admin; teacher Ann and student Bo register, the admin approves
  Ann, Ann creates the course Algebra, Bo enrolls, Ann creates the assignment HW1 and
  Bo submits an answer. Eve is a second teacher who owns nothing.
\<close>

definition seed_store :: store where
  "seed_store =
     \<lparr> users = [\<lparr> u_id = 1, u_first_name = JStr ''Root'', u_last_name = JStr ''Admin'',
                   u_email = JStr ''root@school'', u_password = JStr ''hash:secret0'',
                   u_role = JStr ''master_teacher'', u_is_approved = True, u_created_at = 0 \<rparr>],
       courses = [], enrollments = [], assignments = [], submissions = [], messages = [],
       next_id = 2 \<rparr>"

definition admin_su :: session_user where
  "admin_su = \<lparr> su_id = 1, su_firstName = JStr ''Root'', su_lastName = JStr ''Admin'',
                su_email = JStr ''root@school'', su_role = JStr ''master_teacher'',
                su_isApproved = True \<rparr>"

definition ann_su :: session_user where
  "ann_su = \<lparr> su_id = 2, su_firstName = JStr ''Ann'', su_lastName = JStr ''Lee'',
              su_email = JStr ''ann@school'', su_role = JStr ''teacher'',
              su_isApproved = False \<rparr>"

definition bo_su :: session_user where
  "bo_su = \<lparr> su_id = 3, su_firstName = JStr ''Bo'', su_lastName = JStr ''Kim'',
             su_email = JStr ''bo@school'', su_role = JStr ''student'',
             su_isApproved = True \<rparr>"

definition eve_su :: session_user where
  "eve_su = \<lparr> su_id = 9, su_firstName = JStr ''Eve'', su_lastName = JStr ''Roe'',
              su_email = JStr ''eve@school'', su_role = JStr ''teacher'',
              su_isApproved = True \<rparr>"

definition api_req :: "session_user \<Rightarrow> req" where
  "api_req su = \<lparr> session_user = Some su, path = ''/'' \<rparr>"

definition anonymous :: req where
  "anonymous = \<lparr> session_user = None, path = ''/register'' \<rparr>"

text \<open>
  A stand-in for the hashing library. Like \<open>bcrypt.hash\<close> and \<open>bcrypt.compare\<close>
  it throws (\<open>None\<close>) on an argument that is not a string; on strings it hashes by
  prefixing and compares by rehashing.
\<close>

definition toy_hash :: "jsval \<Rightarrow> jsval option" where
  "toy_hash p = (case p of JStr w \<Rightarrow> Some (JStr (''hash:'' @ w)) | _ \<Rightarrow> None)"

definition toy_compare :: "jsval \<Rightarrow> jsval \<Rightarrow> bool option" where
  "toy_compare p h =
     (case p of
        JStr w \<Rightarrow> (case h of JStr g \<Rightarrow> Some (g = ''hash:'' @ w) | _ \<Rightarrow> None)
      | _ \<Rightarrow> None)"

definition school_ops :: "op list" where
  "school_ops =
     [ Register toy_hash anonymous
         \<lparr> rb_firstName = JStr ''Ann'', rb_lastName = JStr ''Lee'', rb_email = JStr ''ann@school'',
           rb_password = JStr ''secret1'', rb_role = JStr ''teacher'' \<rparr> 10,
       Register toy_hash anonymous
         \<lparr> rb_firstName = JStr ''Bo'', rb_lastName = JStr ''Kim'', rb_email = JStr ''bo@school'',
           rb_password = JStr ''secret2'', rb_role = JStr ''student'' \<rparr> 11,
       PostApprove (api_req admin_su) 2,
       PostCourse (api_req ann_su)
         \<lparr> cb_name = JStr ''Algebra'', cb_description = JUndefined, cb_subject = JStr ''Math'',
           cb_is_active = JUndefined \<rparr> 12,
       PostEnroll (api_req bo_su) 4 13,
       PostAssignment (api_req ann_su)
         \<lparr> ab_course_id = Some 4, ab_title = JStr ''HW1'', ab_description = JUndefined,
           ab_due_date = JStr ''2030-01-08'', ab_max_points = JNum 100 \<rparr>,
       PostSubmit (api_req bo_su) 6 (JStr ''answer'') 14 ]"

definition school :: store where
  "school = run school_ops seed_store"

definition rename_body :: course_body where
  "rename_body = \<lparr> cb_name = JStr ''Algebra II'', cb_description = JUndefined,
                    cb_subject = JUndefined, cb_is_active = JUndefined \<rparr>"



definition retitle_body :: assignment_body where
  "retitle_body = \<lparr> ab_course_id = None, ab_title = JStr ''Homework 1'',
                     ab_description = JUndefined, ab_due_date = JNull,
                     ab_max_points = JUndefined \<rparr>"

text \<open>
  The partial-update rule in the spec's words: an omitted field keeps the stored value,
  a supplied one (null included) replaces it.
\<close>

definition kept_or_replaced :: "jsval \<Rightarrow> jsval \<Rightarrow> jsval" where
  "kept_or_replaced supplied stored = (if supplied = JUndefined then stored else supplied)"

text \<open>
  The admin edit in the claim's words: a truthy supplied value is written, a falsy one
  is ignored and the stored value stays.
\<close>

definition written_if_truthy :: "jsval \<Rightarrow> jsval \<Rightarrow> jsval" where
  "written_if_truthy supplied stored = (if truthy supplied then supplied else stored)"

definition edited :: "user_body \<Rightarrow> user \<Rightarrow> user" where
  "edited body u =
     u\<lparr> u_first_name := written_if_truthy (ub_first_name body) (u_first_name u),
        u_last_name := written_if_truthy (ub_last_name body) (u_last_name u),
        u_email := written_if_truthy (ub_email body) (u_email u),
        u_role := written_if_truthy (ub_role body) (u_role u) \<rparr>"

definition blank_name_body :: user_body where
  "blank_name_body = \<lparr> ub_first_name = JStr '''', ub_last_name = JStr ''Park'',
                        ub_email = JNull, ub_role = JUndefined \<rparr>"

definition blank_all_body :: user_body where
  "blank_all_body = \<lparr> ub_first_name = JStr '''', ub_last_name = JStr '''',
                       ub_email = JStr '''', ub_role = JStr '''' \<rparr>"

text \<open>Two edits of Bo's email: to an address nobody has, and to Ann's address.\<close>

definition new_email_body :: user_body where
  "new_email_body = \<lparr> ub_first_name = JUndefined, ub_last_name = JStr '''',
                       ub_email = JStr ''bo.kim@school'', ub_role = JUndefined \<rparr>"

definition taken_email_body :: user_body where
  "taken_email_body = \<lparr> ub_first_name = JStr ''Bob'', ub_last_name = JUndefined,
                         ub_email = JStr ''ann@school'', ub_role = JUndefined \<rparr>"

text \<open>
  The read-marking of the conversation route on one message, and the number of unread
  messages a partner has sent to a user.
\<close>

definition mark_read :: "ident \<Rightarrow> ident \<Rightarrow> message \<Rightarrow> message" where
  "mark_read userId partnerId m =
     (if m_sender_id m = partnerId \<and> m_receiver_id m = userId \<and> m_is_read m = False
      then m\<lparr> m_is_read := True \<rparr> else m)"

definition unread_from :: "ident \<Rightarrow> ident \<Rightarrow> store \<Rightarrow> nat" where
  "unread_from partnerId userId s =
     length (filter (\<lambda>m. m_sender_id m = partnerId \<and> m_receiver_id m = userId \<and> \<not> m_is_read m)
               (messages s))"

text \<open>The school after Ann has written to Bo twice and Bo once to Ann.\<close>

definition school_mail :: store where
  "school_mail =
     run [ PostSend (api_req ann_su) (Some 3) (JStr ''Welcome'') 20,
           PostSend (api_req bo_su) (Some 2) (JStr ''Thanks'') 21,
           PostSend (api_req ann_su) (Some 3) (JStr ''HW1 is out'') 22 ] school"

text \<open>A submission row after a resubmission: new content and submitted-at, all else kept.\<close>

definition resubmitted :: "jsval \<Rightarrow> timestamp \<Rightarrow> submission \<Rightarrow> submission" where
  "resubmitted content now x = x\<lparr> s_content := content, s_submitted_at := now \<rparr>"

text \<open>The school before Bo's submission.\<close>

definition school_before_submit :: store where
  "school_before_submit = school\<lparr> submissions := [], next_id := 7 \<rparr>"




text \<open>
  The invariant of the spec on submissions: the row references an assignment that
  exists and a student who has an enrollment row for that assignment's course.
\<close>

definition submission_valid :: "store \<Rightarrow> submission \<Rightarrow> bool" where
  "submission_valid s x =
     list_ex (\<lambda>a. a_id a = s_assignment_id x \<and>
                   list_ex (\<lambda>e. e_student_id e = s_student_id x \<and> e_course_id e = a_course_id a)
                     (enrollments s))
       (assignments s)"

definition submissions_valid :: "store \<Rightarrow> bool" where
  "submissions_valid s = list_all (submission_valid s) (submissions s)"

text \<open>The two operations that delete enrollment or assignment rows.\<close>

fun removes :: "op \<Rightarrow> bool" where
  "removes (DeleteUnenroll rq cid) = True"
| "removes (DeleteAssignment rq aid) = True"
| "removes other = False"

text \<open>
  What the invariant reads of a store: the (assignment, course) pairs, the
  (student, course) pairs and the (assignment, student) pairs of its rows.
\<close>

definition asg_keys :: "store \<Rightarrow> (ident \<times> ident) set" where
  "asg_keys s = (\<lambda>a. (a_id a, a_course_id a)) ` set (assignments s)"

definition enr_keys :: "store \<Rightarrow> (ident \<times> ident) set" where
  "enr_keys s = (\<lambda>e. (e_student_id e, e_course_id e)) ` set (enrollments s)"

definition sub_keys :: "store \<Rightarrow> (ident \<times> ident) set" where
  "sub_keys s = (\<lambda>x. (s_assignment_id x, s_student_id x)) ` set (submissions s)"

definition tables :: "store \<Rightarrow> assignment list \<times> enrollment list \<times> submission list" where
  "tables s = (assignments s, enrollments s, submissions s)"

text \<open>
  Well-formedness of the submissions table: the ids are distinct and below the next
  fresh id, and no two rows share an (assignment, student) pair.
\<close>

definition submissions_ok :: "store \<Rightarrow> bool" where
  "submissions_ok s =
     (distinct (map s_id (submissions s)) \<and>
      list_all (\<lambda>x. s_id x < next_id s) (submissions s) \<and>
      distinct (map (\<lambda>x. (s_assignment_id x, s_student_id x)) (submissions s)))"

section \<open>Properties\<close>

subsection \<open>The school scenario, evaluated\<close>

lemmas gate_defs = requireAuth_def requireRole_def requireApproved_def admin_gate_def
lemmas example_defs = seed_store_def admin_su_def ann_su_def bo_su_def eve_su_def api_req_def
  anonymous_def toy_hash_def toy_compare_def

lemma update_users_no_email:
  "uu_email up = None \<Longrightarrow>
   update_users up P s =
     Inr (s\<lparr> users := map (\<lambda>u. if P u then apply_user_updates up u else u) (users s) \<rparr>)"
  by (simp add: update_users_def email_taken_def)

lemma update_users_Inr:
  "update_users up P s = Inr s' \<Longrightarrow>
   s' = s\<lparr> users := map (\<lambda>u. if P u then apply_user_updates up u else u) (users s) \<rparr>"
  by (simp add: update_users_def split: if_splits)

lemma school_eq:
  "school =
     \<lparr> users =
         [\<lparr> u_id = 1, u_first_name = JStr ''Root'', u_last_name = JStr ''Admin'',
            u_email = JStr ''root@school'', u_password = JStr ''hash:secret0'',
            u_role = JStr ''master_teacher'', u_is_approved = True, u_created_at = 0 \<rparr>,
          \<lparr> u_id = 2, u_first_name = JStr ''Ann'', u_last_name = JStr ''Lee'',
            u_email = JStr ''ann@school'', u_password = JStr ''hash:secret1'',
            u_role = JStr ''teacher'', u_is_approved = True, u_created_at = 10 \<rparr>,
          \<lparr> u_id = 3, u_first_name = JStr ''Bo'', u_last_name = JStr ''Kim'',
            u_email = JStr ''bo@school'', u_password = JStr ''hash:secret2'',
            u_role = JStr ''student'', u_is_approved = True, u_created_at = 11 \<rparr>],
       courses =
         [\<lparr> c_id = 4, c_teacher_id = 2, c_name = JStr ''Algebra'', c_description = JStr '''',
            c_subject = JStr ''Math'', c_is_active = JBool True, c_created_at = 12,
            c_updated_at = 12 \<rparr>],
       enrollments = [\<lparr> e_id = 5, e_student_id = 3, e_course_id = 4, e_enrolled_at = 13 \<rparr>],
       assignments =
         [\<lparr> a_id = 6, a_course_id = 4, a_title = JStr ''HW1'', a_description = JStr '''',
            a_due_date = JStr ''2030-01-08'', a_max_points = JNum 100 \<rparr>],
       submissions =
         [\<lparr> s_id = 7, s_assignment_id = 6, s_student_id = 3, s_content = JStr ''answer'',
            s_submitted_at = 14, s_grade = None, s_feedback = JNull, s_graded_at = None \<rparr>],
       messages = [], next_id = 8 \<rparr>"
  by (simp add: school_def run_def school_ops_def example_defs gate_defs
      register_def too_short_def single_def insert_user_def post_approve_def admin_update_def
      update_users_no_email apply_user_updates_def set_col_def post_course_def post_course_handler_def
      insert_course_def js_or_def post_enroll_def post_enroll_handler_def insert_enrollment_def
      post_assignment_def post_assignment_handler_def verifyTeacherOwns_def insert_assignment_def
      post_submit_def post_submit_handler_def verifyEnrolled_def insert_submission_def Let_def)

subsection \<open>Ownership of courses\<close>

lemma single_Some_mem: "single xs = Some x \<Longrightarrow> x \<in> set xs"
  by (auto simp: single_def split: list.splits)

lemma single_filter_Some: "single (filter P xs) = Some x \<Longrightarrow> x \<in> set xs \<and> P x"
  using single_Some_mem[of "filter P xs" x] by simp

lemma not_owner_not_your_course:
  assumes "su_role su = JStr ''teacher''"
    and "\<not> (\<exists>c \<in> set (courses s). c_id c = cid \<and> c_teacher_id c = su_id su)"
  shows "not_your_course su cid s"
  using assms by (auto simp: not_your_course_def split: option.splits dest!: single_filter_Some)

lemma admin_never_not_your_course:
  "su_role su = JStr ''master_teacher'' \<Longrightarrow> \<not> not_your_course su cid s"
  by (simp add: not_your_course_def)

lemma gates_teacher_roles:
  assumes "session_user rq = Some su"
    and "su_role su = JStr ''teacher'' \<or> su_role su = JStr ''master_teacher''"
  shows "put_course rq cid body now s = put_course_handler su cid body now s"
    and "delete_course rq cid now s = delete_course_handler su cid now s"
  using assms by (auto simp: put_course_def delete_course_def requireAuth_def requireRole_def)

text \<open>
  C5. A caller with role \<open>teacher\<close> who owns no course row with the given id gets
  403 from course update and course delete, and the store is returned as it was. For a
  caller with role \<open>master_teacher\<close> neither route answers 403, and the update is
  applied to the rows with that id whoever their teacher is.
\<close>

theorem course_update_delete_ownership:
  assumes "session_user rq = Some su"
  shows "(su_role su = JStr ''teacher'' \<and>
          \<not> (\<exists>c \<in> set (courses s). c_id c = cid \<and> c_teacher_id c = su_id su) \<longrightarrow>
            put_course rq cid body now s = (Fail 403 ''Not your course'', s) \<and>
            delete_course rq cid now s = (Fail 403 ''Not your course'', s))
       \<and> (su_role su = JStr ''master_teacher'' \<longrightarrow>
            status (fst (put_course rq cid body now s)) \<noteq> 403 \<and>
            status (fst (delete_course rq cid now s)) \<noteq> 403 \<and>
            courses (snd (put_course rq cid body now s)) =
              map (\<lambda>c. if c_id c = cid
                        then apply_course_updates
                               \<lparr> cu_updated_at = Some now, cu_name = present (cb_name body),
                                 cu_description = present (cb_description body),
                                 cu_subject = present (cb_subject body),
                                 cu_is_active = present (cb_is_active body) \<rparr> c
                        else c) (courses s) \<and>
            courses (snd (delete_course rq cid now s)) =
              map (\<lambda>c. if c_id c = cid
                        then c\<lparr> c_updated_at := now, c_is_active := JBool False \<rparr>
                        else c) (courses s))"
proof (intro conjI impI)
  assume t: "su_role su = JStr ''teacher'' \<and>
          \<not> (\<exists>c \<in> set (courses s). c_id c = cid \<and> c_teacher_id c = su_id su)"
  then have n: "not_your_course su cid s" by (simp add: not_owner_not_your_course)
  from t assms show "put_course rq cid body now s = (Fail 403 ''Not your course'', s)"
    by (simp add: gates_teacher_roles put_course_handler_def n)
  from t assms show "delete_course rq cid now s = (Fail 403 ''Not your course'', s)"
    by (simp add: gates_teacher_roles delete_course_handler_def n)
next
  assume m: "su_role su = JStr ''master_teacher''"
  then have n: "\<not> not_your_course su cid s" by (rule admin_never_not_your_course)
  from m assms have p: "put_course rq cid body now s = put_course_handler su cid body now s"
    and d: "delete_course rq cid now s = delete_course_handler su cid now s"
    by (simp_all add: gates_teacher_roles)
  show "status (fst (put_course rq cid body now s)) \<noteq> 403"
    by (simp add: p put_course_handler_def n Let_def split: option.splits)
  show "status (fst (delete_course rq cid now s)) \<noteq> 403"
    by (simp add: d delete_course_handler_def n Let_def)
  show "courses (snd (put_course rq cid body now s)) =
              map (\<lambda>c. if c_id c = cid
                        then apply_course_updates
                               \<lparr> cu_updated_at = Some now, cu_name = present (cb_name body),
                                 cu_description = present (cb_description body),
                                 cu_subject = present (cb_subject body),
                                 cu_is_active = present (cb_is_active body) \<rparr> c
                        else c) (courses s)"
    by (simp add: p put_course_handler_def n Let_def update_courses_def split: option.splits)
  show "courses (snd (delete_course rq cid now s)) =
              map (\<lambda>c. if c_id c = cid
                        then c\<lparr> c_updated_at := now, c_is_active := JBool False \<rparr>
                        else c) (courses s)"
    by (simp add: d delete_course_handler_def n Let_def update_courses_def
        apply_course_updates_def set_col_def)
qed

theorem course_update_delete_ownership_witness:
  "session_user (api_req eve_su) = Some eve_su \<and> su_role eve_su = JStr ''teacher'' \<and>
   \<not> (\<exists>c \<in> set (courses school). c_id c = 4 \<and> c_teacher_id c = su_id eve_su) \<and>
   put_course (api_req eve_su) 4 rename_body 20 school = (Fail 403 ''Not your course'', school) \<and>
   delete_course (api_req eve_su) 4 20 school = (Fail 403 ''Not your course'', school) \<and>
   session_user (api_req admin_su) = Some admin_su \<and> su_role admin_su = JStr ''master_teacher'' \<and>
   status (fst (put_course (api_req admin_su) 4 rename_body 20 school)) \<noteq> 403 \<and>
   status (fst (delete_course (api_req admin_su) 4 20 school)) \<noteq> 403 \<and>
   map c_name (courses (snd (put_course (api_req admin_su) 4 rename_body 20 school))) =
     [JStr ''Algebra II''] \<and>
   map c_is_active (courses (snd (delete_course (api_req admin_su) 4 20 school))) = [JBool False]"
  using course_update_delete_ownership [of "api_req eve_su" eve_su school 4 rename_body 20]
    course_update_delete_ownership [of "api_req admin_su" admin_su school 4 rename_body 20]
  by (simp add: school_eq example_defs rename_body_def apply_course_updates_def set_col_def
      present_def)

subsection \<open>The approval gate\<close>



lemma gates_teacher_roles_assignment:
  assumes "session_user rq = Some su"
    and "su_role su = JStr ''teacher'' \<or> su_role su = JStr ''master_teacher''"
  shows "put_assignment rq aid body s = put_assignment_handler su aid body s"
    and "delete_assignment rq aid s = delete_assignment_handler su aid s"
  using assms
  by (auto simp: put_assignment_def delete_assignment_def requireAuth_def requireRole_def)





subsection \<open>Enrollment\<close>

lemma gates_student:
  assumes "session_user rq = Some su" and "su_role su = JStr ''student''"
  shows "post_enroll rq cid now s = post_enroll_handler su cid now s"
    and "delete_unenroll rq cid s = delete_unenroll_handler su cid s"
    and "post_submit rq aid content now s = post_submit_handler su aid content now s"
  using assms
  by (simp_all add: post_enroll_def delete_unenroll_def post_submit_def requireAuth_def
      requireRole_def)

lemma enroll_already:
  assumes "\<exists>e \<in> set (enrollments s). e_student_id e = su_id su \<and> e_course_id e = cid"
  shows "post_enroll_handler su cid now s = (Fail 400 ''Already enrolled in this course'', s)"
  using assms by (simp add: post_enroll_handler_def insert_enrollment_def)

lemma enroll_then_enrolled:
  "\<exists>e \<in> set (enrollments (snd (post_enroll_handler su cid now s))).
      e_student_id e = su_id su \<and> e_course_id e = cid"
  by (auto simp: post_enroll_handler_def insert_enrollment_def Let_def)

text \<open>
  C7. When the student already has an enrollment row for the course, the enroll route
  answers 400 with the message \<open>Already enrolled in this course\<close> (the store's
  uniqueness violation, not the generic 500) and returns the store as it was. In
  particular the second of two enroll attempts in a row gets this answer, and the
  number of enrollment rows of the course is the same after it as before it.
\<close>

theorem duplicate_enroll_rejected:
  assumes "session_user rq = Some su" and "su_role su = JStr ''student''"
  shows "((\<exists>e \<in> set (enrollments s). e_student_id e = su_id su \<and> e_course_id e = cid) \<longrightarrow>
            post_enroll rq cid now s = (Fail 400 ''Already enrolled in this course'', s))
       \<and> post_enroll rq cid now' (snd (post_enroll rq cid now s)) =
            (Fail 400 ''Already enrolled in this course'', snd (post_enroll rq cid now s))
       \<and> length (filter (\<lambda>e. e_course_id e = cid)
                   (enrollments (snd (post_enroll rq cid now' (snd (post_enroll rq cid now s)))))) =
         length (filter (\<lambda>e. e_course_id e = cid) (enrollments (snd (post_enroll rq cid now s))))"
proof -
  have 1: "post_enroll rq cid now s = (Fail 400 ''Already enrolled in this course'', s)"
    if "\<exists>e \<in> set (enrollments s). e_student_id e = su_id su \<and> e_course_id e = cid"
    using that assms by (simp add: gates_student enroll_already)
  have 2: "post_enroll rq cid now' (snd (post_enroll rq cid now s)) =
            (Fail 400 ''Already enrolled in this course'', snd (post_enroll rq cid now s))"
    using assms enroll_then_enrolled [of su cid now s]
    by (simp add: gates_student enroll_already)
  from 1 2 show ?thesis by simp
qed

theorem duplicate_enroll_rejected_witness:
  "session_user (api_req bo_su) = Some bo_su \<and> su_role bo_su = JStr ''student'' \<and>
   (\<exists>e \<in> set (enrollments school). e_student_id e = su_id bo_su \<and> e_course_id e = 4) \<and>
   post_enroll (api_req bo_su) 4 30 school = (Fail 400 ''Already enrolled in this course'', school)"
  using duplicate_enroll_rejected [of "api_req bo_su" bo_su school 4 30 31]
  by (simp add: school_eq example_defs)

subsection \<open>Partial update of an assignment\<close>

lemma single_eq_Some: "single xs = Some x \<longleftrightarrow> xs = [x]"
  by (auto simp: single_def split: list.splits)

lemma filter_singleton_unique:
  assumes "filter P xs = [a]" and "x \<in> set xs" and "P x"
  shows "x = a"
proof -
  from assms(2,3) have "x \<in> set (filter P xs)" by simp
  with assms(1) show ?thesis by simp
qed

lemma map_update_single:
  assumes "filter P xs = [a]" and "\<And>x. P (f x) = P x"
  shows "map (\<lambda>x. if P x then f x else x) xs = map (\<lambda>x. if P x then f a else x) xs"
    and "filter P (map (\<lambda>x. if P x then f x else x) xs) = [f a]"
proof -
  show 1: "map (\<lambda>x. if P x then f x else x) xs = map (\<lambda>x. if P x then f a else x) xs"
    using filter_singleton_unique [OF assms(1)] by (auto intro!: map_cong)
  have "filter P (map (\<lambda>x. if P x then f x else x) xs) = map f (filter P xs)"
    using assms(2) by (induction xs) auto
  with assms(1) show "filter P (map (\<lambda>x. if P x then f x else x) xs) = [f a]" by simp
qed

lemma set_col_present: "set_col (present v) old = kept_or_replaced v old"
  by (simp add: set_col_def present_def kept_or_replaced_def)

text \<open>
  C6. For an authorized caller (a \<open>master_teacher\<close>, or a \<open>teacher\<close> who owns
  the assignment's course) and an assignment id that names exactly one row, the update
  route answers with the updated row and writes it in place of the old one: each of
  title, description, due date and max points keeps its stored value when the body
  omits it (\<open>undefined\<close>) and takes the supplied value otherwise, \<open>null\<close>
  included. Id and course of the row, every other row and every other table are
  unchanged.
\<close>

theorem assignment_partial_update:
  assumes "session_user rq = Some su"
    and "su_role su = JStr ''master_teacher'' \<or>
         (su_role su = JStr ''teacher'' \<and> verifyTeacherOwns (a_course_id a) (su_id su) s)"
    and "single (filter (\<lambda>x. a_id x = aid) (assignments s)) = Some a"
  shows "put_assignment rq aid body s =
           (Ok (a\<lparr> a_title := kept_or_replaced (ab_title body) (a_title a),
                   a_description := kept_or_replaced (ab_description body) (a_description a),
                   a_due_date := kept_or_replaced (ab_due_date body) (a_due_date a),
                   a_max_points := kept_or_replaced (ab_max_points body) (a_max_points a) \<rparr>),
            s\<lparr> assignments :=
                 map (\<lambda>x. if a_id x = aid
                           then a\<lparr> a_title := kept_or_replaced (ab_title body) (a_title a),
                                   a_description := kept_or_replaced (ab_description body) (a_description a),
                                   a_due_date := kept_or_replaced (ab_due_date body) (a_due_date a),
                                   a_max_points := kept_or_replaced (ab_max_points body) (a_max_points a) \<rparr>
                           else x) (assignments s) \<rparr>)"
proof -
  let ?up = "\<lparr> au_title = present (ab_title body), au_description = present (ab_description body),
               au_due_date = present (ab_due_date body),
               au_max_points = present (ab_max_points body) \<rparr>"
  let ?f = "apply_assignment_updates ?up"
  let ?P = "\<lambda>x. a_id x = aid"
  from assms(3) have f: "filter ?P (assignments s) = [a]" by (simp add: single_eq_Some)
  have k: "\<And>x. ?P (?f x) = ?P x" by (simp add: apply_assignment_updates_def)
  have fa: "?f a = a\<lparr> a_title := kept_or_replaced (ab_title body) (a_title a),
                   a_description := kept_or_replaced (ab_description body) (a_description a),
                   a_due_date := kept_or_replaced (ab_due_date body) (a_due_date a),
                   a_max_points := kept_or_replaced (ab_max_points body) (a_max_points a) \<rparr>"
    by (simp add: apply_assignment_updates_def set_col_present)
  let ?a' = "a\<lparr> a_title := kept_or_replaced (ab_title body) (a_title a),
                   a_description := kept_or_replaced (ab_description body) (a_description a),
                   a_due_date := kept_or_replaced (ab_due_date body) (a_due_date a),
                   a_max_points := kept_or_replaced (ab_max_points body) (a_max_points a) \<rparr>"
  from assms(1,2) have h: "put_assignment rq aid body s = put_assignment_handler su aid body s"
    by (auto simp: gates_teacher_roles_assignment)
  from assms(2) have o: "\<not> (su_role su = JStr ''teacher'' \<and>
      \<not> verifyTeacherOwns (a_course_id a) (su_id su) s)" by auto
  have m: "assignments (update_assignments ?up ?P s) =
             map (\<lambda>x. if ?P x then ?a' else x) (assignments s)"
    using map_update_single(1) [where P = ?P and f = ?f, OF f k] by (simp add: update_assignments_def fa)
  have u: "update_assignments ?up ?P s =
             s\<lparr> assignments := map (\<lambda>x. if ?P x then ?a' else x) (assignments s) \<rparr>"
    using m by (simp add: update_assignments_def)
  have g: "single (filter ?P (assignments (update_assignments ?up ?P s))) = Some ?a'"
    using map_update_single(2) [where P = ?P and f = ?f, OF f k] by (simp add: update_assignments_def fa single_eq_Some)
  have "put_assignment_handler su aid body s = (Ok ?a', update_assignments ?up ?P s)"
    unfolding put_assignment_handler_def Let_def assms(3) using o g by simp
  with h u show ?thesis by simp
qed

theorem assignment_partial_update_witness:
  "session_user (api_req ann_su) = Some ann_su \<and>
   su_role ann_su = JStr ''teacher'' \<and> verifyTeacherOwns 4 (su_id ann_su) school \<and>
   single (filter (\<lambda>x. a_id x = 6) (assignments school)) =
     Some \<lparr> a_id = 6, a_course_id = 4, a_title = JStr ''HW1'', a_description = JStr '''',
            a_due_date = JStr ''2030-01-08'', a_max_points = JNum 100 \<rparr> \<and>
   put_assignment (api_req ann_su) 6 retitle_body school =
     (Ok \<lparr> a_id = 6, a_course_id = 4, a_title = JStr ''Homework 1'', a_description = JStr '''',
           a_due_date = JNull, a_max_points = JNum 100 \<rparr>,
      school\<lparr> assignments :=
        [\<lparr> a_id = 6, a_course_id = 4, a_title = JStr ''Homework 1'', a_description = JStr '''',
           a_due_date = JNull, a_max_points = JNum 100 \<rparr>] \<rparr>)"
  using assignment_partial_update [of "api_req ann_su" ann_su
      "\<lparr> a_id = 6, a_course_id = 4, a_title = JStr ''HW1'', a_description = JStr '''',
         a_due_date = JStr ''2030-01-08'', a_max_points = JNum 100 \<rparr>" school 6 retitle_body]
  by (simp add: school_eq example_defs verifyTeacherOwns_def single_def retitle_body_def
      kept_or_replaced_def)

subsection \<open>The admin user edit\<close>

lemma set_col_if_truthy: "set_col (if_truthy v) old = written_if_truthy v old"
  by (simp add: set_col_def if_truthy_def written_if_truthy_def)

lemma apply_user_edit:
  "apply_user_updates
     \<lparr> uu_first_name = if_truthy (ub_first_name body), uu_last_name = if_truthy (ub_last_name body),
       uu_email = if_truthy (ub_email body), uu_role = if_truthy (ub_role body),
       uu_is_approved = None \<rparr> u = edited body u"
  by (simp add: apply_user_updates_def edited_def set_col_if_truthy) (simp add: set_col_def)

lemma put_user_handler_users:
  "users (snd (put_user_handler su uid body s)) = users s \<or>
   users (snd (put_user_handler su uid body s)) =
     map (\<lambda>u. if u_id u = uid then edited body u else u) (users s)"
proof -
  let ?up = "\<lparr> uu_first_name = if_truthy (ub_first_name body), uu_last_name = if_truthy (ub_last_name body),
       uu_email = if_truthy (ub_email body), uu_role = if_truthy (ub_role body),
       uu_is_approved = None \<rparr>"
  show ?thesis
  proof (cases "update_users ?up (\<lambda>u. u_id u = uid) s")
    case (Inl code)
    then show ?thesis by (simp add: put_user_handler_def Let_def)
  next
    case (Inr s')
    from update_users_Inr [OF Inr]
    have "users s' = map (\<lambda>u. if u_id u = uid then edited body u else u) (users s)"
      unfolding apply_user_edit by simp
    with Inr show ?thesis by (simp add: put_user_handler_def Let_def split: option.splits)
  qed
qed

lemma put_user_users:
  "users (snd (put_user rq uid body s)) = users s \<or>
   users (snd (put_user rq uid body s)) =
     map (\<lambda>u. if u_id u = uid then edited body u else u) (users s)"
  using put_user_handler_users [of _ uid body s]
  by (simp add: put_user_def split: option.splits)

lemma email_taken_edit:
  assumes "filter (\<lambda>x. u_id x = uid) us = [u]"
  shows "email_taken
           \<lparr> uu_first_name = if_truthy (ub_first_name body), uu_last_name = if_truthy (ub_last_name body),
             uu_email = if_truthy (ub_email body), uu_role = if_truthy (ub_role body),
             uu_is_approved = None \<rparr> (\<lambda>x. u_id x = uid) us =
         (truthy (ub_email body) \<and> list_ex (\<lambda>v. u_id v \<noteq> uid \<and> u_email v = ub_email body) us)"
proof -
  have "u \<in> set (filter (\<lambda>x. u_id x = uid) us)" using assms by simp
  then have "list_ex (\<lambda>x. u_id x = uid) us" by (auto simp: list_ex_iff)
  then show ?thesis using assms by (simp add: email_taken_def if_truthy_def)
qed

lemma edited_falsy:
  "\<not> truthy (ub_first_name body) \<Longrightarrow> u_first_name (edited body u) = u_first_name u"
  "\<not> truthy (ub_last_name body) \<Longrightarrow> u_last_name (edited body u) = u_last_name u"
  "\<not> truthy (ub_email body) \<Longrightarrow> u_email (edited body u) = u_email u"
  "\<not> truthy (ub_role body) \<Longrightarrow> u_role (edited body u) = u_role u"
  by (simp_all add: edited_def written_if_truthy_def)

lemma edited_truthy:
  "truthy (u_first_name u) \<Longrightarrow> truthy (u_first_name (edited body u))"
  "truthy (u_last_name u) \<Longrightarrow> truthy (u_last_name (edited body u))"
  "truthy (u_email u) \<Longrightarrow> truthy (u_email (edited body u))"
  by (simp_all add: edited_def written_if_truthy_def)

lemma map_col_unchanged:
  assumes "\<And>u. col (f u) = col u"
  shows "map col (map (\<lambda>u. if P u then f u else u) us) = map col us"
  using assms by (induction us) simp_all

lemma list_all_col_kept:
  assumes "\<And>u. Q u \<Longrightarrow> Q (f u)" and "list_all Q us"
  shows "list_all Q (map (\<lambda>u. if P u then f u else u) us)"
  using assms by (induction us) simp_all

lemma put_user_ok:
  assumes "session_user rq = Some su" and "su_role su = JStr ''master_teacher''"
    and "\<not> (uid = su_id su \<and> truthy (ub_role body) \<and> ub_role body \<noteq> JStr ''master_teacher'')"
    and "single (filter (\<lambda>x. u_id x = uid) (users s)) = Some u"
    and "\<not> (truthy (ub_email body) \<and>
             list_ex (\<lambda>v. u_id v \<noteq> uid \<and> u_email v = ub_email body) (users s))"
  shows "put_user rq uid body s =
           (Ok (edited body u),
            s\<lparr> users := map (\<lambda>x. if u_id x = uid then edited body u else x) (users s) \<rparr>)"
proof -
  let ?P = "\<lambda>x. u_id x = uid"
  let ?up = "\<lparr> uu_first_name = if_truthy (ub_first_name body), uu_last_name = if_truthy (ub_last_name body),
       uu_email = if_truthy (ub_email body), uu_role = if_truthy (ub_role body),
       uu_is_approved = None \<rparr>"
  from assms(4) have f: "filter ?P (users s) = [u]" by (simp add: single_eq_Some)
  have k: "\<And>x. ?P (edited body x) = ?P x" by (simp add: edited_def)
  from assms(1,2) have h: "put_user rq uid body s = put_user_handler su uid body s"
    by (simp add: put_user_def gate_defs)
  have g: "single (filter ?P (map (\<lambda>x. if ?P x then edited body x else x) (users s))) =
             Some (edited body u)"
    using map_update_single(2) [where P = ?P and f = "edited body", OF f k] by (simp add: single_eq_Some)
  have "\<not> email_taken ?up ?P (users s)"
    unfolding email_taken_edit [OF f] using assms(5) .
  then have w: "update_users ?up ?P s =
      Inr (s\<lparr> users := map (\<lambda>x. if ?P x then edited body x else x) (users s) \<rparr>)"
    unfolding update_users_def apply_user_edit by simp
  have "put_user_handler su uid body s =
          (Ok (edited body u),
           s\<lparr> users := map (\<lambda>x. if ?P x then edited body x else x) (users s) \<rparr>)"
    unfolding put_user_handler_def Let_def w
    using assms(3) g by simp
  moreover have "map (\<lambda>x. if ?P x then edited body x else x) (users s) =
      map (\<lambda>x. if ?P x then edited body u else x) (users s)"
    by (rule map_update_single(1) [where P = ?P and f = "edited body", OF f k])
  ultimately show ?thesis using h by simp
qed

lemma put_user_refused:
  assumes "session_user rq = Some su" and "su_role su = JStr ''master_teacher''"
    and "\<not> (uid = su_id su \<and> truthy (ub_role body) \<and> ub_role body \<noteq> JStr ''master_teacher'')"
    and "single (filter (\<lambda>x. u_id x = uid) (users s)) = Some u"
    and "truthy (ub_email body)"
    and "list_ex (\<lambda>v. u_id v \<noteq> uid \<and> u_email v = ub_email body) (users s)"
  shows "put_user rq uid body s = (Fail 500 ''Failed to update user'', s)"
proof -
  let ?P = "\<lambda>x. u_id x = uid"
  let ?up = "\<lparr> uu_first_name = if_truthy (ub_first_name body), uu_last_name = if_truthy (ub_last_name body),
       uu_email = if_truthy (ub_email body), uu_role = if_truthy (ub_role body),
       uu_is_approved = None \<rparr>"
  from assms(4) have f: "filter ?P (users s) = [u]" by (simp add: single_eq_Some)
  from assms(1,2) have h: "put_user rq uid body s = put_user_handler su uid body s"
    by (simp add: put_user_def gate_defs)
  have "email_taken ?up ?P (users s)"
    unfolding email_taken_edit [OF f] using assms(5,6) by simp
  then have w: "update_users ?up ?P s = Inl ''23505''"
    unfolding update_users_def by simp
  have "put_user_handler su uid body s = (Fail 500 ''Failed to update user'', s)"
    unfolding put_user_handler_def Let_def w using assms(3) by simp
  with h show ?thesis by simp
qed

text \<open>
  C10. Whatever the request, the admin user edit leaves a column of the users table as
  it was when the value supplied for it is falsy (first name, last name, email, role),
  and a column in which every stored value is truthy stays so: no name or email is
  blanked. When the caller is an admin, the self-demotion guard does not fire and the
  id names exactly one row, then either the supplied email is truthy and another row
  holds it, and the store refuses the update (500, nothing written), or the route
  answers with that row in which exactly the truthy supplied fields are written, and
  stores it in place of the old one.
\<close>

theorem admin_edit_ignores_falsy:
  "(\<not> truthy (ub_first_name body) \<longrightarrow>
      map u_first_name (users (snd (put_user rq uid body s))) = map u_first_name (users s)) \<and>
   (\<not> truthy (ub_last_name body) \<longrightarrow>
      map u_last_name (users (snd (put_user rq uid body s))) = map u_last_name (users s)) \<and>
   (\<not> truthy (ub_email body) \<longrightarrow>
      map u_email (users (snd (put_user rq uid body s))) = map u_email (users s)) \<and>
   (\<not> truthy (ub_role body) \<longrightarrow>
      map u_role (users (snd (put_user rq uid body s))) = map u_role (users s)) \<and>
   (list_all (\<lambda>u. truthy (u_first_name u)) (users s) \<longrightarrow>
      list_all (\<lambda>u. truthy (u_first_name u)) (users (snd (put_user rq uid body s)))) \<and>
   (list_all (\<lambda>u. truthy (u_last_name u)) (users s) \<longrightarrow>
      list_all (\<lambda>u. truthy (u_last_name u)) (users (snd (put_user rq uid body s)))) \<and>
   (list_all (\<lambda>u. truthy (u_email u)) (users s) \<longrightarrow>
      list_all (\<lambda>u. truthy (u_email u)) (users (snd (put_user rq uid body s)))) \<and>
   (session_user rq = Some su \<and> su_role su = JStr ''master_teacher'' \<and>
    \<not> (uid = su_id su \<and> truthy (ub_role body) \<and> ub_role body \<noteq> JStr ''master_teacher'') \<and>
    single (filter (\<lambda>x. u_id x = uid) (users s)) = Some u \<and>
    \<not> (truthy (ub_email body) \<and>
        list_ex (\<lambda>v. u_id v \<noteq> uid \<and> u_email v = ub_email body) (users s)) \<longrightarrow>
      put_user rq uid body s =
        (Ok (edited body u),
         s\<lparr> users := map (\<lambda>x. if u_id x = uid then edited body u else x) (users s) \<rparr>)) \<and>
   (session_user rq = Some su \<and> su_role su = JStr ''master_teacher'' \<and>
    \<not> (uid = su_id su \<and> truthy (ub_role body) \<and> ub_role body \<noteq> JStr ''master_teacher'') \<and>
    single (filter (\<lambda>x. u_id x = uid) (users s)) = Some u \<and>
    truthy (ub_email body) \<and>
    list_ex (\<lambda>v. u_id v \<noteq> uid \<and> u_email v = ub_email body) (users s) \<longrightarrow>
      put_user rq uid body s = (Fail 500 ''Failed to update user'', s))"
proof -
  let ?s' = "snd (put_user rq uid body s)"
  let ?m = "map (\<lambda>u. if u_id u = uid then edited body u else u) (users s)"
  note c = put_user_users [of rq uid body s]
  have 1: "map u_first_name (users ?s') = map u_first_name (users s)"
    if "\<not> truthy (ub_first_name body)"
    using c map_col_unchanged [of u_first_name "edited body"] that by (auto simp: edited_falsy)
  have 2: "map u_last_name (users ?s') = map u_last_name (users s)"
    if "\<not> truthy (ub_last_name body)"
    using c map_col_unchanged [of u_last_name "edited body"] that by (auto simp: edited_falsy)
  have 3: "map u_email (users ?s') = map u_email (users s)"
    if "\<not> truthy (ub_email body)"
    using c map_col_unchanged [of u_email "edited body"] that by (auto simp: edited_falsy)
  have 4: "map u_role (users ?s') = map u_role (users s)"
    if "\<not> truthy (ub_role body)"
    using c map_col_unchanged [of u_role "edited body"] that by (auto simp: edited_falsy)
  have 5: "list_all (\<lambda>u. truthy (u_first_name u)) (users ?s')"
    if "list_all (\<lambda>u. truthy (u_first_name u)) (users s)"
    using c that list_all_col_kept [of "\<lambda>u. truthy (u_first_name u)" "edited body", OF _ that]
    by (auto simp: edited_truthy)
  have 6: "list_all (\<lambda>u. truthy (u_last_name u)) (users ?s')"
    if "list_all (\<lambda>u. truthy (u_last_name u)) (users s)"
    using c that list_all_col_kept [of "\<lambda>u. truthy (u_last_name u)" "edited body", OF _ that]
    by (auto simp: edited_truthy)
  have 7: "list_all (\<lambda>u. truthy (u_email u)) (users ?s')"
    if "list_all (\<lambda>u. truthy (u_email u)) (users s)"
    using c that list_all_col_kept [of "\<lambda>u. truthy (u_email u)" "edited body", OF _ that]
    by (auto simp: edited_truthy)
  from 1 2 3 4 5 6 7 put_user_ok [of rq su uid body s u] put_user_refused [of rq su uid body s u]
  show ?thesis by blast
qed

theorem admin_edit_ignores_falsy_witness:
  "\<not> truthy (ub_first_name blank_all_body) \<and> \<not> truthy (ub_last_name blank_all_body) \<and>
   \<not> truthy (ub_email blank_all_body) \<and> \<not> truthy (ub_role blank_all_body) \<and>
   list_all (\<lambda>u. truthy (u_first_name u)) (users school) \<and>
   list_all (\<lambda>u. truthy (u_last_name u)) (users school) \<and>
   list_all (\<lambda>u. truthy (u_email u)) (users school) \<and>
   session_user (api_req admin_su) = Some admin_su \<and>
   su_role admin_su = JStr ''master_teacher'' \<and>
   snd (put_user (api_req admin_su) 3 blank_all_body school) = school \<and>
   map u_first_name (users (snd (put_user (api_req admin_su) 3 blank_name_body school))) =
     [JStr ''Root'', JStr ''Ann'', JStr ''Bo''] \<and>
   map u_last_name (users (snd (put_user (api_req admin_su) 3 blank_name_body school))) =
     [JStr ''Admin'', JStr ''Lee'', JStr ''Park''] \<and>
   map u_email (users (snd (put_user (api_req admin_su) 3 blank_name_body school))) =
     [JStr ''root@school'', JStr ''ann@school'', JStr ''bo@school''] \<and>
   \<not> list_ex (\<lambda>v. u_id v \<noteq> 3 \<and> u_email v = JStr ''bo.kim@school'') (users school) \<and>
   map u_email (users (snd (put_user (api_req admin_su) 3 new_email_body school))) =
     [JStr ''root@school'', JStr ''ann@school'', JStr ''bo.kim@school''] \<and>
   map u_last_name (users (snd (put_user (api_req admin_su) 3 new_email_body school))) =
     [JStr ''Admin'', JStr ''Lee'', JStr ''Kim''] \<and>
   truthy (ub_email taken_email_body) \<and>
   list_ex (\<lambda>v. u_id v \<noteq> 3 \<and> u_email v = ub_email taken_email_body) (users school) \<and>
   put_user (api_req admin_su) 3 taken_email_body school =
     (Fail 500 ''Failed to update user'', school)"
  using admin_edit_ignores_falsy [of blank_all_body "api_req admin_su" 3 school admin_su
      "\<lparr> u_id = 3, u_first_name = JStr ''Bo'', u_last_name = JStr ''Kim'',
         u_email = JStr ''bo@school'', u_password = JStr ''hash:secret2'',
         u_role = JStr ''student'', u_is_approved = True, u_created_at = 11 \<rparr>"]
    admin_edit_ignores_falsy [of blank_name_body "api_req admin_su" 3 school admin_su
      "\<lparr> u_id = 3, u_first_name = JStr ''Bo'', u_last_name = JStr ''Kim'',
         u_email = JStr ''bo@school'', u_password = JStr ''hash:secret2'',
         u_role = JStr ''student'', u_is_approved = True, u_created_at = 11 \<rparr>"]
    admin_edit_ignores_falsy [of new_email_body "api_req admin_su" 3 school admin_su
      "\<lparr> u_id = 3, u_first_name = JStr ''Bo'', u_last_name = JStr ''Kim'',
         u_email = JStr ''bo@school'', u_password = JStr ''hash:secret2'',
         u_role = JStr ''student'', u_is_approved = True, u_created_at = 11 \<rparr>"]
    admin_edit_ignores_falsy [of taken_email_body "api_req admin_su" 3 school admin_su
      "\<lparr> u_id = 3, u_first_name = JStr ''Bo'', u_last_name = JStr ''Kim'',
         u_email = JStr ''bo@school'', u_password = JStr ''hash:secret2'',
         u_role = JStr ''student'', u_is_approved = True, u_created_at = 11 \<rparr>"]
  by (simp add: school_eq example_defs blank_all_body_def blank_name_body_def new_email_body_def
      taken_email_body_def single_def edited_def written_if_truthy_def)

subsection \<open>Login failures\<close>

lemma filter_none_unknown:
  "\<forall>u \<in> set us. u_email u \<noteq> email \<Longrightarrow> filter (\<lambda>u. u_email u = email) us = []"
  by (induction us) simp_all

lemma login_known_wrong:
  assumes "single (filter (\<lambda>u. u_email u = email) (users s)) = Some u"
    and "compare password (u_password u) = Some False"
    and "truthy email" and "truthy password"
  shows "login compare rq email password s = (Fail 401 ''Invalid email or password'', rq)"
  using assms by (simp add: login_def)

lemma login_unknown:
  assumes "\<forall>u \<in> set (users s). u_email u \<noteq> email"
    and "truthy email" and "truthy password"
  shows "login compare rq email password s = (Fail 401 ''Invalid email or password'', rq)"
  using assms by (simp add: login_def filter_none_unknown single_def)

lemma login_missing_field:
  assumes "\<not> (truthy email \<and> truthy password)"
  shows "login compare rq email password s = (Fail 400 ''Email and password are required'', rq)"
  using assms by (auto simp: login_def)

lemma login_compare_throws:
  assumes "single (filter (\<lambda>u. u_email u = email) (users s)) = Some u"
    and "compare password (u_password u) = None"
    and "truthy email" and "truthy password"
  shows "login compare rq email password s = (Fail 500 ''Login failed. Please try again.'', rq)"
  using assms by (simp add: login_def)

text \<open>
  C4. The two rejections of the login route carry the same status and message, but the
  comparison of the password with the stored hash is reached only for a known email,
  and the hashing library throws on a password that is not a string. A login with a
  JSON number as password, which passes the presence check, is therefore answered with
  500 \<open>Login failed. Please try again.\<close> when the email is Ann's and with 401
  \<open>Invalid email or password\<close> when no user has the email: the reply tells whether
  the email exists.
\<close>

theorem login_number_password_oracle:
  "login toy_compare anonymous (JStr ''ann@school'') (JNum 123456) school =
     (Fail 500 ''Login failed. Please try again.'', anonymous) \<and>
   login toy_compare anonymous (JStr ''zed@school'') (JNum 123456) school =
     (Fail 401 ''Invalid email or password'', anonymous) \<and>
   login toy_compare anonymous (JStr ''ann@school'') (JStr ''guess'') school =
     (Fail 401 ''Invalid email or password'', anonymous)"
  by (simp add: school_eq example_defs login_def single_def)

theorem login_number_password_oracle_witness:
  "truthy (JStr ''ann@school'') \<and> truthy (JStr ''zed@school'') \<and> truthy (JNum 123456) \<and>
   JStr ''ann@school'' \<in> set (map u_email (users school)) \<and>
   JStr ''zed@school'' \<notin> set (map u_email (users school)) \<and>
   toy_compare (JNum 123456) (JStr ''hash:secret1'') = None \<and>
   toy_compare (JStr ''guess'') (JStr ''hash:secret1'') = Some False \<and>
   status (fst (login toy_compare anonymous (JStr ''ann@school'') (JNum 123456) school)) = 500 \<and>
   status (fst (login toy_compare anonymous (JStr ''zed@school'') (JNum 123456) school)) = 401 \<and>
   status (fst (login toy_compare anonymous (JStr ''ann@school'') (JStr ''guess'') school)) = 401"
  using login_number_password_oracle by (simp add: school_eq example_defs)

subsection \<open>Read receipts\<close>

lemma school_mail_eq:
  "school_mail =
     school\<lparr> messages :=
         [\<lparr> m_id = 8, m_sender_id = 2, m_receiver_id = 3, m_content = JStr ''Welcome'',
            m_created_at = 20, m_is_read = False \<rparr>,
          \<lparr> m_id = 9, m_sender_id = 3, m_receiver_id = 2, m_content = JStr ''Thanks'',
            m_created_at = 21, m_is_read = False \<rparr>,
          \<lparr> m_id = 10, m_sender_id = 2, m_receiver_id = 3, m_content = JStr ''HW1 is out'',
            m_created_at = 22, m_is_read = False \<rparr>],
       next_id := 11 \<rparr>"
  by (simp add: school_mail_def run_def school_eq example_defs post_send_def
      post_send_handler_def requireAuth_def single_def insert_message_def Let_def)

lemma get_conversation_store:
  assumes "session_user rq = Some su"
  shows "snd (get_conversation rq pid s) =
           s\<lparr> messages := map (mark_read (su_id su) pid) (messages s) \<rparr>"
    and "status (fst (get_conversation rq pid s)) = 200"
  using assms
  by (simp_all add: get_conversation_def get_conversation_handler_def requireAuth_def Let_def
      mark_read_def [abs_def])

lemma mark_read_idem: "mark_read u p (mark_read u p m) = mark_read u p m"
  by (simp add: mark_read_def)

lemma mark_read_fields:
  "m_sender_id (mark_read u p m) = m_sender_id m"
  "m_receiver_id (mark_read u p m) = m_receiver_id m"
  "m_is_read (mark_read u p m) = (m_is_read m \<or> (m_sender_id m = p \<and> m_receiver_id m = u))"
  unfolding mark_read_def by (cases "m_is_read m"; simp)+

lemma marked_all_read:
  "\<forall>m \<in> set (map (mark_read u p) ms).
     m_sender_id m = p \<and> m_receiver_id m = u \<longrightarrow> m_is_read m"
  by (simp add: mark_read_fields)

lemma unread_after_mark:
  "filter (\<lambda>m. m_receiver_id m = u \<and> m_is_read m = False) (map (mark_read u p) ms) =
   filter (\<lambda>m. m_receiver_id m = u \<and> m_is_read m = False \<and> m_sender_id m \<noteq> p) ms"
  by (induction ms) (auto simp: mark_read_def)

lemma none_unread_after_mark:
  "filter (\<lambda>m. m_sender_id m = p \<and> m_receiver_id m = u \<and> \<not> m_is_read m)
     (map (mark_read u p) ms) = []"
  by (induction ms) (simp_all add: mark_read_def)

lemma mark_read_twice: "map (mark_read u p) (map (mark_read u p) ms) = map (mark_read u p) ms"
  by (induction ms) (simp_all add: mark_read_idem)

text \<open>
  C8. After the conversation route has run for a caller and a partner, every message
  from the partner to the caller is read, the partner contributes nothing to the
  caller's unread messages, and the caller's unread count is the number of unread
  messages from everyone else. A second call leaves the store exactly as the first
  call left it, and both calls are answered with 200.
\<close>

theorem conversation_marks_read:
  assumes "session_user rq = Some su"
  shows "(\<forall>m \<in> set (messages (snd (get_conversation rq pid s))).
            m_sender_id m = pid \<and> m_receiver_id m = su_id su \<longrightarrow> m_is_read m) \<and>
         unread_from pid (su_id su) (snd (get_conversation rq pid s)) = 0 \<and>
         get_unread_count rq (snd (get_conversation rq pid s)) =
           Ok (length (filter (\<lambda>m. m_receiver_id m = su_id su \<and> m_is_read m = False \<and>
                                     m_sender_id m \<noteq> pid) (messages s))) \<and>
         snd (get_conversation rq pid (snd (get_conversation rq pid s))) =
           snd (get_conversation rq pid s) \<and>
         status (fst (get_conversation rq pid s)) = 200 \<and>
         status (fst (get_conversation rq pid (snd (get_conversation rq pid s)))) = 200"
proof -
  let ?s' = "snd (get_conversation rq pid s)"
  have s': "?s' = s\<lparr> messages := map (mark_read (su_id su) pid) (messages s) \<rparr>"
    using assms by (rule get_conversation_store)
  have m: "messages ?s' = map (mark_read (su_id su) pid) (messages s)"
    unfolding s' by simp
  have 1: "\<forall>m \<in> set (messages ?s'). m_sender_id m = pid \<and> m_receiver_id m = su_id su \<longrightarrow> m_is_read m"
    unfolding m by (rule marked_all_read)
  have 2: "unread_from pid (su_id su) ?s' = 0"
    unfolding unread_from_def m none_unread_after_mark by simp
  have c: "get_unread_count rq ?s' =
      Ok (length (filter (\<lambda>m. m_receiver_id m = su_id su \<and> m_is_read m = False) (messages ?s')))"
    using assms
    by (simp add: get_unread_count_def get_unread_count_handler_def requireAuth_def)
  have 3: "get_unread_count rq ?s' =
           Ok (length (filter (\<lambda>m. m_receiver_id m = su_id su \<and> m_is_read m = False \<and>
                                     m_sender_id m \<noteq> pid) (messages s)))"
    unfolding c m unread_after_mark ..
  have "snd (get_conversation rq pid ?s') =
          ?s'\<lparr> messages := map (mark_read (su_id su) pid) (messages ?s') \<rparr>"
    using assms by (rule get_conversation_store)
  also have "\<dots> = ?s'\<lparr> messages := messages ?s' \<rparr>"
    unfolding m mark_read_twice ..
  also have "\<dots> = ?s'" by simp
  finally have 4: "snd (get_conversation rq pid ?s') = ?s'" .
  have 5: "status (fst (get_conversation rq pid s)) = 200"
    using assms by (rule get_conversation_store)
  have 6: "status (fst (get_conversation rq pid ?s')) = 200"
    using assms by (rule get_conversation_store)
  show ?thesis by (intro conjI) (rule 1 2 3 4 5 6)+
qed

theorem conversation_marks_read_witness:
  "session_user (api_req bo_su) = Some bo_su \<and>
   unread_from 2 (su_id bo_su) school_mail = 2 \<and>
   unread_from 2 (su_id bo_su) (snd (get_conversation (api_req bo_su) 2 school_mail)) = 0 \<and>
   get_unread_count (api_req bo_su) (snd (get_conversation (api_req bo_su) 2 school_mail)) = Ok 0 \<and>
   snd (get_conversation (api_req bo_su) 2
          (snd (get_conversation (api_req bo_su) 2 school_mail))) =
     snd (get_conversation (api_req bo_su) 2 school_mail)"
proof -
  have a: "session_user (api_req bo_su) = Some bo_su"
    by (simp add: api_req_def)
  have b: "unread_from 2 (su_id bo_su) school_mail = 2"
    by (simp add: school_mail_eq unread_from_def bo_su_def)
  have c: "length (filter (\<lambda>m. m_receiver_id m = su_id bo_su \<and> m_is_read m = False \<and>
                               m_sender_id m \<noteq> 2) (messages school_mail)) = 0"
    by (simp add: school_mail_eq bo_su_def)
  from conversation_marks_read [OF a, of 2 school_mail] a b c show ?thesis
    by simp
qed

subsection \<open>Submission upsert\<close>

lemma filter_key_distinct:
  assumes "distinct (map f xs)" and "e \<in> set xs"
  shows "filter (\<lambda>x. f x = f e) xs = [e]"
  using assms
proof (induction xs)
  case Nil
  then show ?case by simp
next
  case (Cons x xs)
  show ?case
  proof (cases "x = e")
    case True
    with Cons.prems have "f e \<notin> f ` set xs" by simp
    then have "\<forall>y \<in> set xs. f y \<noteq> f e" by (metis imageI)
    then have "filter (\<lambda>x. f x = f e) xs = []" by (simp add: filter_empty_conv)
    with True show ?thesis by simp
  next
    case False
    with Cons.prems have m: "e \<in> set xs" and d: "distinct (map f xs)" and n: "f x \<notin> f ` set xs"
      by simp_all
    from n m have "f x \<noteq> f e" by auto
    with Cons.IH [OF d m] show ?thesis by simp
  qed
qed

lemma filter_map_invariant:
  assumes "\<And>x. P (g x) = P x"
  shows "filter P (map g xs) = map g (filter P xs)"
  using assms by (induction xs) simp_all

lemma apply_resubmit:
  "apply_submission_updates
     \<lparr> sbu_content = Some content, sbu_submitted_at = Some now, sbu_grade = None,
       sbu_feedback = None, sbu_graded_at = None \<rparr> x = resubmitted content now x"
  by (simp add: apply_submission_updates_def resubmitted_def set_col_def)

lemma submit_update:
  assumes "truthy content"
    and "single (filter (\<lambda>a. a_id a = aid) (assignments s)) = Some a"
    and "verifyEnrolled (a_course_id a) (su_id su) s"
    and "filter (\<lambda>x. s_assignment_id x = aid \<and> s_student_id x = su_id su) (submissions s) = [e]"
    and "distinct (map s_id (submissions s))"
  shows "post_submit_handler su aid content now s =
           (Ok (resubmitted content now e),
            s\<lparr> submissions :=
                 map (\<lambda>x. if s_id x = s_id e then resubmitted content now x else x)
                   (submissions s) \<rparr>)"
proof -
  let ?Q = "\<lambda>x. s_id x = s_id e"
  let ?g = "\<lambda>x. if ?Q x then resubmitted content now x else x"
  from assms(4) have "e \<in> set (filter (\<lambda>x. s_assignment_id x = aid \<and> s_student_id x = su_id su)
      (submissions s))" by simp
  then have mem: "e \<in> set (submissions s)" by simp
  have f: "filter ?Q (submissions s) = [e]"
    using assms(5) mem by (rule filter_key_distinct)
  have k: "\<And>x. ?Q (resubmitted content now x) = ?Q x" by (simp add: resubmitted_def)
  have g: "single (filter ?Q (map ?g (submissions s))) = Some (resubmitted content now e)"
    using map_update_single(2) [where P = ?Q and f = "resubmitted content now", OF f k]
    by (simp add: single_eq_Some)
  have ex: "single (filter (\<lambda>x. s_assignment_id x = aid \<and> s_student_id x = su_id su)
              (submissions s)) = Some e"
    using assms(4) by (simp add: single_eq_Some)
  show ?thesis
    unfolding post_submit_handler_def Let_def assms(2) ex apply_resubmit update_submissions_def
    using assms(1,3) g by simp
qed

lemma submit_insert:
  assumes "truthy content"
    and "single (filter (\<lambda>a. a_id a = aid) (assignments s)) = Some a"
    and "verifyEnrolled (a_course_id a) (su_id su) s"
    and "filter (\<lambda>x. s_assignment_id x = aid \<and> s_student_id x = su_id su) (submissions s) = []"
  shows "post_submit_handler su aid content now s =
           (Ok \<lparr> s_id = next_id s, s_assignment_id = aid, s_student_id = su_id su,
                 s_content = content, s_submitted_at = now, s_grade = None,
                 s_feedback = JNull, s_graded_at = None \<rparr>,
            s\<lparr> submissions := submissions s @
                   [\<lparr> s_id = next_id s, s_assignment_id = aid, s_student_id = su_id su,
                      s_content = content, s_submitted_at = now, s_grade = None,
                      s_feedback = JNull, s_graded_at = None \<rparr>],
               next_id := Suc (next_id s) \<rparr>)"
proof -
  have ex: "single (filter (\<lambda>x. s_assignment_id x = aid \<and> s_student_id x = su_id su)
              (submissions s)) = None"
    using assms(4) by (simp add: single_def)
  show ?thesis
    unfolding post_submit_handler_def assms(2) ex insert_submission_def Let_def
    using assms(1,3) by simp
qed

lemma verifyEnrolled_cong:
  "enrollments s' = enrollments s \<Longrightarrow> verifyEnrolled c u s' = verifyEnrolled c u s"
  by (simp add: verifyEnrolled_def)

lemma submit_update_effect:
  assumes "filter (\<lambda>x. s_assignment_id x = aid \<and> s_student_id x = uid) subs = [e]"
  shows "filter (\<lambda>x. s_assignment_id x = aid \<and> s_student_id x = uid)
           (map (\<lambda>x. if s_id x = s_id e then resubmitted content now x else x) subs) =
         [resubmitted content now e]"
    and "map s_id (map (\<lambda>x. if s_id x = s_id e then resubmitted content now x else x) subs) =
         map s_id subs"
proof -
  let ?P = "\<lambda>x. s_assignment_id x = aid \<and> s_student_id x = uid"
  let ?g = "\<lambda>x. if s_id x = s_id e then resubmitted content now x else x"
  have "\<And>x. ?P (?g x) = ?P x" by (simp add: resubmitted_def)
  then have "filter ?P (map ?g subs) = map ?g (filter ?P subs)"
    by (rule filter_map_invariant)
  with assms show "filter ?P (map ?g subs) = [resubmitted content now e]" by simp
  show "map s_id (map ?g subs) = map s_id subs"
    by (induction subs) (simp_all add: resubmitted_def)
qed

text \<open>
  C3. In a store whose submission ids are distinct and below the next fresh id and that
  holds at most one submission for the (assignment, student) pair, two submit calls in
  a row by an enrolled student with non-empty content both succeed. The first returns a
  row with its content and time; the second returns that same row (same id) with the
  second content and time. Afterwards the pair has exactly that one row, and the second
  call has not added a row: it took the update path.
\<close>

theorem resubmit_upserts:
  assumes "session_user rq = Some su" and "su_role su = JStr ''student''"
    and "truthy c1" and "truthy c2"
    and "single (filter (\<lambda>a. a_id a = aid) (assignments s)) = Some a"
    and "verifyEnrolled (a_course_id a) (su_id su) s"
    and "distinct (map s_id (submissions s))"
    and "next_id s \<notin> set (map s_id (submissions s))"
    and "length (filter (\<lambda>x. s_assignment_id x = aid \<and> s_student_id x = su_id su)
                   (submissions s)) \<le> 1"
  shows "\<exists>r1. fst (post_submit rq aid c1 t1 s) = Ok r1 \<and>
              s_content r1 = c1 \<and> s_submitted_at r1 = t1 \<and>
              fst (post_submit rq aid c2 t2 (snd (post_submit rq aid c1 t1 s))) =
                Ok (resubmitted c2 t2 r1) \<and>
              filter (\<lambda>x. s_assignment_id x = aid \<and> s_student_id x = su_id su)
                (submissions (snd (post_submit rq aid c2 t2 (snd (post_submit rq aid c1 t1 s))))) =
                [resubmitted c2 t2 r1] \<and>
              length (submissions (snd (post_submit rq aid c2 t2 (snd (post_submit rq aid c1 t1 s))))) =
                length (submissions (snd (post_submit rq aid c1 t1 s)))"
proof -
  let ?P = "\<lambda>x. s_assignment_id x = aid \<and> s_student_id x = su_id su"
  let ?s1 = "snd (post_submit rq aid c1 t1 s)"
  have h: "\<And>c t s'. post_submit rq aid c t s' = post_submit_handler su aid c t s'"
    using assms(1,2) by (simp add: gates_student)
  have first: "\<exists>r1. post_submit_handler su aid c1 t1 s = (Ok r1, ?s1) \<and>
      s_content r1 = c1 \<and> s_submitted_at r1 = t1 \<and>
      assignments ?s1 = assignments s \<and> enrollments ?s1 = enrollments s \<and>
      filter ?P (submissions ?s1) = [r1] \<and> distinct (map s_id (submissions ?s1))"
  proof (cases "filter ?P (submissions s)")
    case Nil
    let ?x = "\<lparr> s_id = next_id s, s_assignment_id = aid, s_student_id = su_id su,
                 s_content = c1, s_submitted_at = t1, s_grade = None,
                 s_feedback = JNull, s_graded_at = None \<rparr>"
    have r: "post_submit_handler su aid c1 t1 s =
        (Ok ?x, s\<lparr> submissions := submissions s @ [?x], next_id := Suc (next_id s) \<rparr>)"
      using assms(3,5,6) Nil by (rule submit_insert)
    then have s1: "?s1 = s\<lparr> submissions := submissions s @ [?x], next_id := Suc (next_id s) \<rparr>"
      by (simp add: h)
    have "filter ?P (submissions ?s1) = [?x]" unfolding s1 using Nil by simp
    moreover have "distinct (map s_id (submissions ?s1))"
      unfolding s1 using assms(7,8) by simp
    moreover have "assignments ?s1 = assignments s" "enrollments ?s1 = enrollments s"
      unfolding s1 by simp_all
    moreover have "post_submit_handler su aid c1 t1 s = (Ok ?x, ?s1)"
      using r s1 by simp
    ultimately show ?thesis by simp
  next
    case (Cons e rest)
    with assms(9) have f: "filter ?P (submissions s) = [e]" by simp
    let ?g = "\<lambda>x. if s_id x = s_id e then resubmitted c1 t1 x else x"
    have r: "post_submit_handler su aid c1 t1 s =
        (Ok (resubmitted c1 t1 e), s\<lparr> submissions := map ?g (submissions s) \<rparr>)"
      using assms(3,5,6) f assms(7) by (rule submit_update)
    then have s1: "?s1 = s\<lparr> submissions := map ?g (submissions s) \<rparr>"
      by (simp add: h)
    have "filter ?P (submissions ?s1) = [resubmitted c1 t1 e]"
      unfolding s1 using submit_update_effect(1) [OF f] by simp
    moreover have "distinct (map s_id (submissions ?s1))"
    proof -
      have "submissions ?s1 = map ?g (submissions s)" unfolding s1 by simp
      then show ?thesis using assms(7) by (simp only: submit_update_effect(2) [OF f])
    qed
    moreover have "assignments ?s1 = assignments s" "enrollments ?s1 = enrollments s"
      unfolding s1 by simp_all
    moreover have "post_submit_handler su aid c1 t1 s = (Ok (resubmitted c1 t1 e), ?s1)"
      using r s1 by simp
    moreover have "s_content (resubmitted c1 t1 e) = c1" "s_submitted_at (resubmitted c1 t1 e) = t1"
      by (simp_all add: resubmitted_def)
    ultimately show ?thesis by simp
  qed
  then obtain r1 where r1: "post_submit_handler su aid c1 t1 s = (Ok r1, ?s1)"
    and c: "s_content r1 = c1" "s_submitted_at r1 = t1"
    and a1: "assignments ?s1 = assignments s" and e1: "enrollments ?s1 = enrollments s"
    and f1: "filter ?P (submissions ?s1) = [r1]"
    and d1: "distinct (map s_id (submissions ?s1))"
    by blast
  let ?g = "\<lambda>x. if s_id x = s_id r1 then resubmitted c2 t2 x else x"
  have as: "single (filter (\<lambda>a. a_id a = aid) (assignments ?s1)) = Some a"
    using assms(5) a1 by simp
  have en: "verifyEnrolled (a_course_id a) (su_id su) ?s1"
    using assms(6) verifyEnrolled_cong [OF e1] by simp
  have second: "post_submit_handler su aid c2 t2 ?s1 =
      (Ok (resubmitted c2 t2 r1), ?s1\<lparr> submissions := map ?g (submissions ?s1) \<rparr>)"
    using assms(4) as en f1 d1 by (rule submit_update)
  have 1: "fst (post_submit rq aid c1 t1 s) = Ok r1" using r1 by (metis fst_conv h)
  have 2: "fst (post_submit rq aid c2 t2 ?s1) = Ok (resubmitted c2 t2 r1)"
    using second by (simp add: h)
  have s2: "snd (post_submit rq aid c2 t2 ?s1) = ?s1\<lparr> submissions := map ?g (submissions ?s1) \<rparr>"
    using second by (simp add: h)
  have 3: "filter ?P (submissions (snd (post_submit rq aid c2 t2 ?s1))) = [resubmitted c2 t2 r1]"
    unfolding s2 using submit_update_effect(1) [OF f1] by simp
  have 4: "length (submissions (snd (post_submit rq aid c2 t2 ?s1))) = length (submissions ?s1)"
    unfolding s2 by simp
  from 1 c 2 3 4 show ?thesis by blast
qed

theorem resubmit_upserts_witness:
  "session_user (api_req bo_su) = Some bo_su \<and> su_role bo_su = JStr ''student'' \<and>
   truthy (JStr ''draft'') \<and> truthy (JStr ''answer'') \<and>
   single (filter (\<lambda>a. a_id a = 6) (assignments school_before_submit)) =
     Some \<lparr> a_id = 6, a_course_id = 4, a_title = JStr ''HW1'', a_description = JStr '''',
            a_due_date = JStr ''2030-01-08'', a_max_points = JNum 100 \<rparr> \<and>
   verifyEnrolled 4 (su_id bo_su) school_before_submit \<and>
   distinct (map s_id (submissions school_before_submit)) \<and>
   next_id school_before_submit \<notin> set (map s_id (submissions school_before_submit)) \<and>
   length (filter (\<lambda>x. s_assignment_id x = 6 \<and> s_student_id x = su_id bo_su)
             (submissions school_before_submit)) \<le> 1 \<and>
   fst (post_submit (api_req bo_su) 6 (JStr ''draft'') 14 school_before_submit) =
     Ok \<lparr> s_id = 7, s_assignment_id = 6, s_student_id = 3, s_content = JStr ''draft'',
          s_submitted_at = 14, s_grade = None, s_feedback = JNull, s_graded_at = None \<rparr> \<and>
   filter (\<lambda>x. s_assignment_id x = 6 \<and> s_student_id x = su_id bo_su)
     (submissions (snd (post_submit (api_req bo_su) 6 (JStr ''answer'') 15
        (snd (post_submit (api_req bo_su) 6 (JStr ''draft'') 14 school_before_submit))))) =
     [\<lparr> s_id = 7, s_assignment_id = 6, s_student_id = 3, s_content = JStr ''answer'',
        s_submitted_at = 15, s_grade = None, s_feedback = JNull, s_graded_at = None \<rparr>]"
proof -
  let ?a = "\<lparr> a_id = 6, a_course_id = 4, a_title = JStr ''HW1'', a_description = JStr '''',
            a_due_date = JStr ''2030-01-08'', a_max_points = JNum 100 \<rparr>"
  let ?x = "\<lparr> s_id = 7, s_assignment_id = 6, s_student_id = 3, s_content = JStr ''draft'',
          s_submitted_at = 14, s_grade = None, s_feedback = JNull, s_graded_at = None \<rparr>"
  have 1: "session_user (api_req bo_su) = Some bo_su" and 2: "su_role bo_su = JStr ''student''"
    by (simp_all add: api_req_def bo_su_def)
  have 3: "truthy (JStr ''draft'')" and 4: "truthy (JStr ''answer'')" by simp_all
  have 5: "single (filter (\<lambda>a. a_id a = 6) (assignments school_before_submit)) = Some ?a"
    by (simp add: school_before_submit_def school_eq single_def)
  have 6: "verifyEnrolled (a_course_id ?a) (su_id bo_su) school_before_submit"
    by (simp add: school_before_submit_def school_eq verifyEnrolled_def single_def bo_su_def)
  have 7: "distinct (map s_id (submissions school_before_submit))"
    and 8: "next_id school_before_submit \<notin> set (map s_id (submissions school_before_submit))"
    and 9: "length (filter (\<lambda>x. s_assignment_id x = 6 \<and> s_student_id x = su_id bo_su)
             (submissions school_before_submit)) \<le> 1"
    by (simp_all add: school_before_submit_def)
  have n: "filter (\<lambda>x. s_assignment_id x = 6 \<and> s_student_id x = su_id bo_su)
             (submissions school_before_submit) = []"
    by (simp add: school_before_submit_def)
  have "post_submit (api_req bo_su) 6 (JStr ''draft'') 14 school_before_submit =
          post_submit_handler bo_su 6 (JStr ''draft'') 14 school_before_submit"
    using 1 2 by (rule gates_student)
  also note submit_insert [OF 3 5 6 n, of 14]
  finally have f: "fst (post_submit (api_req bo_su) 6 (JStr ''draft'') 14 school_before_submit) = Ok ?x"
    by (simp add: school_before_submit_def bo_su_def)
  from resubmit_upserts [OF 1 2 3 4 5 6 7 8 9, of 14 15] f
  have "filter (\<lambda>x. s_assignment_id x = 6 \<and> s_student_id x = su_id bo_su)
     (submissions (snd (post_submit (api_req bo_su) 6 (JStr ''answer'') 15
        (snd (post_submit (api_req bo_su) 6 (JStr ''draft'') 14 school_before_submit))))) =
     [resubmitted (JStr ''answer'') 15 ?x]"
    by auto
  then show ?thesis using 1 2 5 6 7 8 9 f by (simp add: resubmitted_def)
qed

subsection \<open>Pending grading\<close>









subsection \<open>Validity of submissions\<close>

lemma keys_of_tables:
  "tables s' = tables s \<Longrightarrow> asg_keys s' = asg_keys s \<and> enr_keys s' = enr_keys s \<and> sub_keys s' = sub_keys s"
  by (simp add: tables_def asg_keys_def enr_keys_def sub_keys_def)

lemma tables_register: "tables (snd (snd (register hash rq body now s))) = tables s"
  by (simp add: register_def insert_user_def tables_def Let_def split: option.splits)

lemma tables_post_course: "tables (snd (post_course rq body now s)) = tables s"
  by (simp add: post_course_def post_course_handler_def insert_course_def tables_def Let_def
      split: option.splits)

lemma tables_put_course: "tables (snd (put_course rq cid body now s)) = tables s"
  by (simp add: put_course_def put_course_handler_def update_courses_def tables_def Let_def
      split: option.splits)

lemma tables_delete_course: "tables (snd (delete_course rq cid now s)) = tables s"
  by (simp add: delete_course_def delete_course_handler_def update_courses_def tables_def Let_def
      split: option.splits)

lemma tables_get_conversation: "tables (snd (get_conversation rq pid s)) = tables s"
  by (simp add: get_conversation_def get_conversation_handler_def tables_def Let_def
      split: option.splits)

lemma tables_post_send: "tables (snd (post_send rq rid content now s)) = tables s"
  by (simp add: post_send_def post_send_handler_def insert_message_def tables_def Let_def
      split: option.splits)

lemma tables_put_user: "tables (snd (put_user rq uid body s)) = tables s"
  by (simp add: put_user_def put_user_handler_def update_users_def tables_def Let_def
      split: option.splits)

lemma tables_delete_user: "tables (snd (delete_user rq uid s)) = tables s"
  by (simp add: delete_user_def delete_user_handler_def tables_def split: option.splits)

lemma tables_admin_update: "tables (snd (admin_update msg up P P' rq s)) = tables s"
  by (simp add: admin_update_def update_users_def tables_def Let_def split: option.splits)

lemma keys_post_enroll:
  "assignments (snd (post_enroll rq cid now s)) = assignments s \<and>
   submissions (snd (post_enroll rq cid now s)) = submissions s \<and>
   set (enrollments s) \<subseteq> set (enrollments (snd (post_enroll rq cid now s)))"
  by (auto simp: post_enroll_def post_enroll_handler_def insert_enrollment_def Let_def
      split: option.splits)

lemma keys_post_assignment:
  "enrollments (snd (post_assignment rq body s)) = enrollments s \<and>
   submissions (snd (post_assignment rq body s)) = submissions s \<and>
   set (assignments s) \<subseteq> set (assignments (snd (post_assignment rq body s)))"
  by (auto simp: post_assignment_def post_assignment_handler_def insert_assignment_def Let_def
      split: option.splits)

lemma asg_keys_update:
  "(\<lambda>a. (a_id a, a_course_id a)) ` set (map (\<lambda>a. if P a then apply_assignment_updates up a else a) xs) =
   (\<lambda>a. (a_id a, a_course_id a)) ` set xs"
proof -
  have "map (\<lambda>a. (a_id a, a_course_id a)) (map (\<lambda>a. if P a then apply_assignment_updates up a else a) xs) =
        map (\<lambda>a. (a_id a, a_course_id a)) xs"
    by (induction xs) (simp_all add: apply_assignment_updates_def)
  then have "set (map (\<lambda>a. (a_id a, a_course_id a))
                (map (\<lambda>a. if P a then apply_assignment_updates up a else a) xs)) =
             set (map (\<lambda>a. (a_id a, a_course_id a)) xs)"
    by (rule arg_cong)
  then show ?thesis by (simp only: set_map)
qed

lemma keys_update_assignments:
  "enrollments (update_assignments up P s) = enrollments s \<and>
   submissions (update_assignments up P s) = submissions s \<and>
   asg_keys (update_assignments up P s) = asg_keys s"
  by (simp add: update_assignments_def asg_keys_def asg_keys_update del: set_map)

lemma put_assignment_store:
  "snd (put_assignment rq aid body s) = s \<or>
   (\<exists>up. snd (put_assignment rq aid body s) = update_assignments up (\<lambda>a. a_id a = aid) s)"
  by (auto simp: put_assignment_def put_assignment_handler_def Let_def split: option.splits)

lemma keys_put_assignment:
  "enrollments (snd (put_assignment rq aid body s)) = enrollments s \<and>
   submissions (snd (put_assignment rq aid body s)) = submissions s \<and>
   asg_keys (snd (put_assignment rq aid body s)) = asg_keys s"
  using put_assignment_store [of rq aid body s] keys_update_assignments
  by (elim disjE exE) simp_all

lemma sub_keys_update:
  "(\<lambda>x. (s_assignment_id x, s_student_id x)) `
     set (map (\<lambda>x. if P x then apply_submission_updates up x else x) xs) =
   (\<lambda>x. (s_assignment_id x, s_student_id x)) ` set xs"
proof -
  have "map (\<lambda>x. (s_assignment_id x, s_student_id x))
          (map (\<lambda>x. if P x then apply_submission_updates up x else x) xs) =
        map (\<lambda>x. (s_assignment_id x, s_student_id x)) xs"
    by (induction xs) (simp_all add: apply_submission_updates_def)
  then have "set (map (\<lambda>x. (s_assignment_id x, s_student_id x))
                (map (\<lambda>x. if P x then apply_submission_updates up x else x) xs)) =
             set (map (\<lambda>x. (s_assignment_id x, s_student_id x)) xs)"
    by (rule arg_cong)
  then show ?thesis by (simp only: set_map)
qed

lemma keys_update_submissions:
  "assignments (update_submissions up P s) = assignments s \<and>
   enrollments (update_submissions up P s) = enrollments s \<and>
   sub_keys (update_submissions up P s) = sub_keys s"
  by (simp add: update_submissions_def sub_keys_def sub_keys_update del: set_map)

lemma put_grade_store:
  "snd (put_grade parseInt rq sid grade feedback now s) = s \<or>
   (\<exists>up. snd (put_grade parseInt rq sid grade feedback now s) =
      update_submissions up (\<lambda>x. s_id x = sid) s)"
  by (auto simp: put_grade_def put_grade_handler_def Let_def split: option.splits)

lemma keys_put_grade:
  "assignments (snd (put_grade parseInt rq sid grade feedback now s)) = assignments s \<and>
   enrollments (snd (put_grade parseInt rq sid grade feedback now s)) = enrollments s \<and>
   sub_keys (snd (put_grade parseInt rq sid grade feedback now s)) = sub_keys s"
  using put_grade_store [of parseInt rq sid grade feedback now s] keys_update_submissions
  by (elim disjE exE) simp_all

lemma verifyEnrolled_key: "verifyEnrolled c u s \<Longrightarrow> (u, c) \<in> enr_keys s"
proof -
  assume "verifyEnrolled c u s"
  then obtain e where "single (filter (\<lambda>e. e_course_id e = c \<and> e_student_id e = u)
      (enrollments s)) = Some e"
    by (auto simp: verifyEnrolled_def)
  then have "e \<in> set (enrollments s)" "e_course_id e = c" "e_student_id e = u"
    using single_filter_Some [of "\<lambda>e. e_course_id e = c \<and> e_student_id e = u" "enrollments s" e]
    by simp_all
  then have "(\<lambda>e. (e_student_id e, e_course_id e)) e \<in> enr_keys s"
    unfolding enr_keys_def by (intro imageI)
  with \<open>e_course_id e = c\<close> \<open>e_student_id e = u\<close> show ?thesis by simp
qed

lemma single_assignment_key:
  "single (filter (\<lambda>a. a_id a = aid) (assignments s)) = Some a \<Longrightarrow> (aid, a_course_id a) \<in> asg_keys s"
proof -
  assume "single (filter (\<lambda>a. a_id a = aid) (assignments s)) = Some a"
  then have "a \<in> set (assignments s)" "a_id a = aid"
    using single_filter_Some [of "\<lambda>a. a_id a = aid" "assignments s" a] by simp_all
  then have "(\<lambda>a. (a_id a, a_course_id a)) a \<in> asg_keys s"
    unfolding asg_keys_def by (intro imageI)
  with \<open>a_id a = aid\<close> show ?thesis by simp
qed

lemma post_submit_handler_store:
  "snd (post_submit_handler su aid content now s) = s \<or>
   (\<exists>up P. snd (post_submit_handler su aid content now s) = update_submissions up P s) \<or>
   (\<exists>a. single (filter (\<lambda>a. a_id a = aid) (assignments s)) = Some a \<and>
        verifyEnrolled (a_course_id a) (su_id su) s \<and>
        single (filter (\<lambda>x. s_assignment_id x = aid \<and> s_student_id x = su_id su)
                  (submissions s)) = None \<and>
        snd (post_submit_handler su aid content now s) =
          s\<lparr> submissions := submissions s @
                 [\<lparr> s_id = next_id s, s_assignment_id = aid, s_student_id = su_id su,
                    s_content = content, s_submitted_at = now, s_grade = None,
                    s_feedback = JNull, s_graded_at = None \<rparr>],
             next_id := Suc (next_id s) \<rparr>)"
proof (cases "truthy content")
  case False
  then show ?thesis by (simp add: post_submit_handler_def)
next
  case t: True
  show ?thesis
  proof (cases "single (filter (\<lambda>a. a_id a = aid) (assignments s))")
    case None
    with t show ?thesis by (simp add: post_submit_handler_def)
  next
    case a: (Some a)
    show ?thesis
    proof (cases "verifyEnrolled (a_course_id a) (su_id su) s")
      case False
      with t a show ?thesis by (simp add: post_submit_handler_def)
    next
      case v: True
      show ?thesis
      proof (cases "single (filter (\<lambda>x. s_assignment_id x = aid \<and> s_student_id x = su_id su)
                              (submissions s))")
        case None
        have "snd (post_submit_handler su aid content now s) =
                     s\<lparr> submissions := submissions s @
                       [\<lparr> s_id = next_id s, s_assignment_id = aid, s_student_id = su_id su,
                          s_content = content, s_submitted_at = now, s_grade = None,
                          s_feedback = JNull, s_graded_at = None \<rparr>],
                       next_id := Suc (next_id s) \<rparr>"
          using t a v None by (simp add: post_submit_handler_def insert_submission_def Let_def)
        then show ?thesis using a v None by simp
      next
        case (Some e)
        let ?up = "\<lparr> sbu_content = Some content, sbu_submitted_at = Some now,
                      sbu_grade = None, sbu_feedback = None, sbu_graded_at = None \<rparr>"
        have "snd (post_submit_handler su aid content now s) =
                update_submissions ?up (\<lambda>x. s_id x = s_id e) s"
          using t a v Some by (simp add: post_submit_handler_def Let_def split: option.splits)
        then show ?thesis by blast
      qed
    qed
  qed
qed

lemma keys_post_submit_handler:
  "assignments (snd (post_submit_handler su aid content now s)) = assignments s \<and>
   enrollments (snd (post_submit_handler su aid content now s)) = enrollments s \<and>
   sub_keys (snd (post_submit_handler su aid content now s)) \<subseteq>
     sub_keys s \<union> {k. \<exists>cid. (fst k, cid) \<in> asg_keys s \<and> (snd k, cid) \<in> enr_keys s}"
  using post_submit_handler_store [of su aid content now s]
proof (elim disjE exE conjE)
  assume "snd (post_submit_handler su aid content now s) = s"
  then show ?thesis by simp
next
  fix up P
  assume "snd (post_submit_handler su aid content now s) = update_submissions up P s"
  then show ?thesis using keys_update_submissions [of up P s] by simp
next
  fix a
  let ?x = "\<lparr> s_id = next_id s, s_assignment_id = aid, s_student_id = su_id su,
              s_content = content, s_submitted_at = now, s_grade = None,
              s_feedback = JNull, s_graded_at = None \<rparr>"
  assume a: "single (filter (\<lambda>a. a_id a = aid) (assignments s)) = Some a"
    and v: "verifyEnrolled (a_course_id a) (su_id su) s"
    and r: "snd (post_submit_handler su aid content now s) =
          s\<lparr> submissions := submissions s @ [?x], next_id := Suc (next_id s) \<rparr>"
  have "(aid, a_course_id a) \<in> asg_keys s" using a by (rule single_assignment_key)
  moreover have "(su_id su, a_course_id a) \<in> enr_keys s" using v by (rule verifyEnrolled_key)
  ultimately have k: "(aid, su_id su) \<in>
      {k. \<exists>cid. (fst k, cid) \<in> asg_keys s \<and> (snd k, cid) \<in> enr_keys s}"
    by auto
  have "sub_keys (snd (post_submit_handler su aid content now s)) =
      insert (aid, su_id su) (sub_keys s)"
    unfolding r sub_keys_def by simp
  with k have "sub_keys (snd (post_submit_handler su aid content now s)) \<subseteq>
     sub_keys s \<union> {k. \<exists>cid. (fst k, cid) \<in> asg_keys s \<and> (snd k, cid) \<in> enr_keys s}"
    by auto
  moreover have "assignments (snd (post_submit_handler su aid content now s)) = assignments s"
    "enrollments (snd (post_submit_handler su aid content now s)) = enrollments s"
    unfolding r by simp_all
  ultimately show ?thesis by simp
qed

lemma keys_post_submit:
  "assignments (snd (post_submit rq aid content now s)) = assignments s \<and>
   enrollments (snd (post_submit rq aid content now s)) = enrollments s \<and>
   sub_keys (snd (post_submit rq aid content now s)) \<subseteq>
     sub_keys s \<union> {k. \<exists>cid. (fst k, cid) \<in> asg_keys s \<and> (snd k, cid) \<in> enr_keys s}"
proof (cases "\<exists>su. post_submit rq aid content now s = post_submit_handler su aid content now s")
  case False
  then have "snd (post_submit rq aid content now s) = s"
    by (auto simp: post_submit_def split: option.splits)
  then show ?thesis by simp
next
  case True
  then obtain su where "post_submit rq aid content now s = post_submit_handler su aid content now s"
    by blast
  then show ?thesis using keys_post_submit_handler [of su aid content now s] by simp
qed

lemma submissions_valid_keys:
  "submissions_valid s \<longleftrightarrow>
     sub_keys s \<subseteq> {k. \<exists>cid. (fst k, cid) \<in> asg_keys s \<and> (snd k, cid) \<in> enr_keys s}"
proof -
  have v: "submission_valid s x \<longleftrightarrow>
      (\<exists>cid. (s_assignment_id x, cid) \<in> asg_keys s \<and> (s_student_id x, cid) \<in> enr_keys s)" for x
    unfolding submission_valid_def list_ex_iff asg_keys_def enr_keys_def image_iff Bex_def
    by (simp only: prod.inject) metis
  have "sub_keys s \<subseteq> {k. \<exists>cid. (fst k, cid) \<in> asg_keys s \<and> (snd k, cid) \<in> enr_keys s} \<longleftrightarrow>
        (\<forall>x \<in> set (submissions s).
           \<exists>cid. (s_assignment_id x, cid) \<in> asg_keys s \<and> (s_student_id x, cid) \<in> enr_keys s)"
    unfolding sub_keys_def image_subset_iff by simp
  then show ?thesis
    unfolding submissions_valid_def list_all_iff v by simp
qed

lemma valid_step:
  assumes "submissions_valid s"
    and "asg_keys s \<subseteq> asg_keys s'" and "enr_keys s \<subseteq> enr_keys s'"
    and "sub_keys s' \<subseteq>
           sub_keys s \<union> {k. \<exists>cid. (fst k, cid) \<in> asg_keys s \<and> (snd k, cid) \<in> enr_keys s}"
  shows "submissions_valid s'"
proof -
  from assms(1) have "sub_keys s \<subseteq>
      {k. \<exists>cid. (fst k, cid) \<in> asg_keys s \<and> (snd k, cid) \<in> enr_keys s}"
    by (simp only: submissions_valid_keys)
  with assms(4) have "sub_keys s' \<subseteq>
      {k. \<exists>cid. (fst k, cid) \<in> asg_keys s \<and> (snd k, cid) \<in> enr_keys s}"
    by blast
  also have "\<dots> \<subseteq> {k. \<exists>cid. (fst k, cid) \<in> asg_keys s' \<and> (snd k, cid) \<in> enr_keys s'}"
    using assms(2,3) by blast
  finally show ?thesis by (simp only: submissions_valid_keys)
qed

lemma valid_from_tables:
  assumes "submissions_valid s"
    and "set (assignments s) \<subseteq> set (assignments s') \<or> asg_keys s' = asg_keys s"
    and "set (enrollments s) \<subseteq> set (enrollments s')"
    and "submissions s' = submissions s \<or>
         sub_keys s' \<subseteq>
           sub_keys s \<union> {k. \<exists>cid. (fst k, cid) \<in> asg_keys s \<and> (snd k, cid) \<in> enr_keys s}"
  shows "submissions_valid s'"
proof -
  from assms(2) have a: "asg_keys s \<subseteq> asg_keys s'"
  proof
    assume "set (assignments s) \<subseteq> set (assignments s')"
    then show ?thesis unfolding asg_keys_def by (rule image_mono)
  next
    assume "asg_keys s' = asg_keys s"
    then show ?thesis by simp
  qed
  from assms(3) have e: "enr_keys s \<subseteq> enr_keys s'"
    unfolding enr_keys_def by (rule image_mono)
  from assms(4) have k: "sub_keys s' \<subseteq>
           sub_keys s \<union> {k. \<exists>cid. (fst k, cid) \<in> asg_keys s \<and> (snd k, cid) \<in> enr_keys s}"
  proof
    assume "submissions s' = submissions s"
    then have "sub_keys s' = sub_keys s" by (simp add: sub_keys_def)
    then show ?thesis by simp
  qed
  from assms(1) a e k show ?thesis by (rule valid_step)
qed

lemma valid_tables:
  assumes "submissions_valid s" and "tables s' = tables s"
  shows "submissions_valid s'"
proof -
  from assms(2) have "assignments s' = assignments s" "enrollments s' = enrollments s"
    "submissions s' = submissions s"
    by (simp_all add: tables_def)
  then show ?thesis using assms(1) by (intro valid_from_tables [of s s']) simp_all
qed

lemma valid_post_enroll:
  assumes "submissions_valid s"
  shows "submissions_valid (snd (post_enroll rq cid now s))"
proof (rule valid_from_tables [OF assms])
  note k = keys_post_enroll [of rq cid now s]
  from k show "set (assignments s) \<subseteq> set (assignments (snd (post_enroll rq cid now s))) \<or>
      asg_keys (snd (post_enroll rq cid now s)) = asg_keys s"
    by (simp add: asg_keys_def)
  from k show "set (enrollments s) \<subseteq> set (enrollments (snd (post_enroll rq cid now s)))"
    by (elim conjE)
  from k show "submissions (snd (post_enroll rq cid now s)) = submissions s \<or>
      sub_keys (snd (post_enroll rq cid now s)) \<subseteq>
        sub_keys s \<union> {k. \<exists>cid. (fst k, cid) \<in> asg_keys s \<and> (snd k, cid) \<in> enr_keys s}"
    by (elim conjE) (rule disjI1)
qed

lemma valid_post_assignment:
  assumes "submissions_valid s"
  shows "submissions_valid (snd (post_assignment rq body s))"
proof (rule valid_from_tables [OF assms])
  note k = keys_post_assignment [of rq body s]
  from k show "set (assignments s) \<subseteq> set (assignments (snd (post_assignment rq body s))) \<or>
      asg_keys (snd (post_assignment rq body s)) = asg_keys s"
    by (elim conjE) (rule disjI1)
  from k show "set (enrollments s) \<subseteq> set (enrollments (snd (post_assignment rq body s)))"
    by simp
  from k show "submissions (snd (post_assignment rq body s)) = submissions s \<or>
      sub_keys (snd (post_assignment rq body s)) \<subseteq>
        sub_keys s \<union> {k. \<exists>cid. (fst k, cid) \<in> asg_keys s \<and> (snd k, cid) \<in> enr_keys s}"
    by (elim conjE) (rule disjI1)
qed

lemma valid_put_assignment:
  assumes "submissions_valid s"
  shows "submissions_valid (snd (put_assignment rq aid body s))"
proof (rule valid_from_tables [OF assms])
  note k = keys_put_assignment [of rq aid body s]
  from k show "set (assignments s) \<subseteq> set (assignments (snd (put_assignment rq aid body s))) \<or>
      asg_keys (snd (put_assignment rq aid body s)) = asg_keys s"
    by (elim conjE) (rule disjI2)
  from k show "set (enrollments s) \<subseteq> set (enrollments (snd (put_assignment rq aid body s)))"
    by simp
  from k show "submissions (snd (put_assignment rq aid body s)) = submissions s \<or>
      sub_keys (snd (put_assignment rq aid body s)) \<subseteq>
        sub_keys s \<union> {k. \<exists>cid. (fst k, cid) \<in> asg_keys s \<and> (snd k, cid) \<in> enr_keys s}"
    by (elim conjE) (rule disjI1)
qed

lemma valid_post_submit:
  assumes "submissions_valid s"
  shows "submissions_valid (snd (post_submit rq aid content now s))"
proof (rule valid_from_tables [OF assms])
  note k = keys_post_submit [of rq aid content now s]
  from k show "set (assignments s) \<subseteq> set (assignments (snd (post_submit rq aid content now s))) \<or>
      asg_keys (snd (post_submit rq aid content now s)) = asg_keys s"
    by simp
  from k show "set (enrollments s) \<subseteq> set (enrollments (snd (post_submit rq aid content now s)))"
    by simp
  from k show "submissions (snd (post_submit rq aid content now s)) = submissions s \<or>
      sub_keys (snd (post_submit rq aid content now s)) \<subseteq>
        sub_keys s \<union> {k. \<exists>cid. (fst k, cid) \<in> asg_keys s \<and> (snd k, cid) \<in> enr_keys s}"
    by (elim conjE) (rule disjI2)
qed

lemma valid_put_grade:
  assumes "submissions_valid s"
  shows "submissions_valid (snd (put_grade parseInt rq sid grade feedback now s))"
proof (rule valid_from_tables [OF assms])
  note k = keys_put_grade [of parseInt rq sid grade feedback now s]
  from k show "set (assignments s) \<subseteq>
        set (assignments (snd (put_grade parseInt rq sid grade feedback now s))) \<or>
      asg_keys (snd (put_grade parseInt rq sid grade feedback now s)) = asg_keys s"
    by simp
  from k show "set (enrollments s) \<subseteq>
      set (enrollments (snd (put_grade parseInt rq sid grade feedback now s)))"
    by simp
  from k have "sub_keys (snd (put_grade parseInt rq sid grade feedback now s)) \<subseteq> sub_keys s"
    by simp
  then show "submissions (snd (put_grade parseInt rq sid grade feedback now s)) = submissions s \<or>
      sub_keys (snd (put_grade parseInt rq sid grade feedback now s)) \<subseteq>
        sub_keys s \<union> {k. \<exists>cid. (fst k, cid) \<in> asg_keys s \<and> (snd k, cid) \<in> enr_keys s}"
    by (intro disjI2 le_supI1)
qed

lemma step_preserves:
  assumes "submissions_valid s" and "\<not> removes op"
  shows "submissions_valid (api_step op s)"
proof (cases op)
  case (Register hash rq body now)
  show ?thesis unfolding Register api_step.simps
    using assms(1) tables_register by (rule valid_tables)
next
  case (PostCourse rq body now)
  show ?thesis unfolding PostCourse api_step.simps
    using assms(1) tables_post_course by (rule valid_tables)
next
  case (PutCourse rq cid body now)
  show ?thesis unfolding PutCourse api_step.simps
    using assms(1) tables_put_course by (rule valid_tables)
next
  case (DeleteCourse rq cid now)
  show ?thesis unfolding DeleteCourse api_step.simps
    using assms(1) tables_delete_course by (rule valid_tables)
next
  case (PostEnroll rq cid now)
  show ?thesis unfolding PostEnroll api_step.simps
    using assms(1) by (rule valid_post_enroll)
next
  case (DeleteUnenroll rq cid)
  with assms(2) show ?thesis by simp
next
  case (PostAssignment rq body)
  show ?thesis unfolding PostAssignment api_step.simps
    using assms(1) by (rule valid_post_assignment)
next
  case (PutAssignment rq aid body)
  show ?thesis unfolding PutAssignment api_step.simps
    using assms(1) by (rule valid_put_assignment)
next
  case (DeleteAssignment rq aid)
  with assms(2) show ?thesis by simp
next
  case (PostSubmit rq aid content now)
  show ?thesis unfolding PostSubmit api_step.simps
    using assms(1) by (rule valid_post_submit)
next
  case (PutGrade parseInt rq sid grade feedback now)
  show ?thesis unfolding PutGrade api_step.simps
    using assms(1) by (rule valid_put_grade)
next
  case (GetConversation rq pid)
  show ?thesis unfolding GetConversation api_step.simps
    using assms(1) tables_get_conversation by (rule valid_tables)
next
  case (PostSend rq rid content now)
  show ?thesis unfolding PostSend api_step.simps
    using assms(1) tables_post_send by (rule valid_tables)
next
  case (PutUser rq uid body)
  show ?thesis unfolding PutUser api_step.simps
    using assms(1) tables_put_user by (rule valid_tables)
next
  case (DeleteUser rq uid)
  show ?thesis unfolding DeleteUser api_step.simps
    using assms(1) tables_delete_user by (rule valid_tables)
next
  case (PostApprove rq uid)
  show ?thesis unfolding PostApprove api_step.simps post_approve_def
    using assms(1) tables_admin_update by (rule valid_tables)
next
  case (PostReject rq uid)
  show ?thesis unfolding PostReject api_step.simps post_reject_def
    using assms(1) tables_admin_update by (rule valid_tables)
next
  case (PostPromote rq uid)
  show ?thesis unfolding PostPromote api_step.simps post_promote_def
    using assms(1) tables_admin_update by (rule valid_tables)
qed

text \<open>
  C2, as stated, fails. In the school every submission is valid; Bo's unenroll from
  the course is answered with 200, leaves his submission where it is and removes his
  enrollment, so the submission now references a student who is not enrolled.
\<close>

theorem unenroll_breaks_submission_invariant:
  "submissions_valid school \<and>
   status (fst (delete_unenroll (api_req bo_su) 4 school)) = 200 \<and>
   submissions (api_step (DeleteUnenroll (api_req bo_su) 4) school) = submissions school \<and>
   \<not> submissions_valid (api_step (DeleteUnenroll (api_req bo_su) 4) school)"
  by (simp add: submissions_valid_def submission_valid_def school_eq delete_unenroll_def
      delete_unenroll_handler_def requireAuth_def requireRole_def api_req_def bo_su_def)

text \<open>
  C2, amended. The submit operation enforces the invariant when it creates a row, and
  every operation of the API other than student unenroll and assignment deletion keeps
  it: from a store in which every submission references an existing assignment and a
  student enrolled in that assignment's course, any sequence of such operations leads
  to a store with the same property. Unenroll and assignment deletion remove their row
  and leave the submissions in place.
\<close>

theorem submissions_valid_without_removal:
  assumes "submissions_valid s" and "list_all (\<lambda>op. \<not> removes op) ops"
  shows "submissions_valid (run ops s)"
  using assms
proof (induction ops arbitrary: s)
  case Nil
  then show ?case by (simp add: run_def)
next
  case (Cons op ops)
  from Cons.prems(2) have n: "\<not> removes op" and r: "list_all (\<lambda>op. \<not> removes op) ops"
    by simp_all
  from Cons.prems(1) n have "submissions_valid (api_step op s)" by (rule step_preserves)
  then have "submissions_valid (run ops (api_step op s))" using r by (rule Cons.IH)
  moreover have "run (op # ops) s = run ops (api_step op s)" by (simp add: run_def)
  ultimately show ?case by simp
qed

theorem submissions_valid_without_removal_witness:
  "submissions_valid seed_store \<and> list_all (\<lambda>op. \<not> removes op) school_ops \<and>
   submissions_valid (run school_ops seed_store) \<and>
   length (submissions (run school_ops seed_store)) = 1"
proof -
  have 1: "submissions_valid seed_store"
    by (simp add: submissions_valid_def seed_store_def)
  have 2: "list_all (\<lambda>op. \<not> removes op) school_ops"
    by (simp add: school_ops_def)
  have 3: "length (submissions (run school_ops seed_store)) = 1"
    using school_eq by (simp add: school_def)
  from submissions_valid_without_removal [OF 1 2] 1 2 3 show ?thesis by simp
qed

subsection \<open>Well-formedness of the submissions table\<close>

text \<open>
  The hypotheses on the store under which the upsert property is stated are kept by
  every operation of the API: distinct submission ids below the next fresh id, and at
  most one row for each (assignment, student) pair. They hold in the seed store, hence
  in every store the operations reach from it.
\<close>

lemma distinct_key_filter:
  "distinct (map k xs) \<Longrightarrow> length (filter (\<lambda>x. k x = v) xs) \<le> 1"
proof (induction xs)
  case Nil
  then show ?case by simp
next
  case (Cons x xs)
  show ?case
  proof (cases "k x = v")
    case True
    with Cons.prems have "v \<notin> k ` set xs" by simp
    then have "\<forall>y \<in> set xs. k y \<noteq> v" by (metis imageI)
    then have "filter (\<lambda>x. k x = v) xs = []" by (simp add: filter_empty_conv)
    with True show ?thesis by simp
  next
    case False
    with Cons show ?thesis by simp
  qed
qed

lemma submissions_ok_hyps:
  assumes "submissions_ok s"
  shows "distinct (map s_id (submissions s))"
    and "next_id s \<notin> set (map s_id (submissions s))"
    and "length (filter (\<lambda>x. s_assignment_id x = aid \<and> s_student_id x = uid) (submissions s)) \<le> 1"
proof -
  from assms show "distinct (map s_id (submissions s))" by (simp add: submissions_ok_def)
  from assms have "\<forall>x \<in> set (submissions s). s_id x < next_id s"
    by (simp add: submissions_ok_def list_all_iff)
  then show "next_id s \<notin> set (map s_id (submissions s))" by auto
  from assms have "distinct (map (\<lambda>x. (s_assignment_id x, s_student_id x)) (submissions s))"
    by (simp add: submissions_ok_def)
  then have "length (filter (\<lambda>x. (s_assignment_id x, s_student_id x) = (aid, uid)) (submissions s)) \<le> 1"
    by (rule distinct_key_filter)
  then show "length (filter (\<lambda>x. s_assignment_id x = aid \<and> s_student_id x = uid) (submissions s)) \<le> 1"
    by simp
qed

lemma ok_same_submissions:
  assumes "submissions_ok s" and "submissions s' = submissions s" and "next_id s \<le> next_id s'"
  shows "submissions_ok s'"
proof -
  from assms(1) have "\<forall>x \<in> set (submissions s). s_id x < next_id s"
    by (simp add: submissions_ok_def list_all_iff)
  with assms(3) have "\<forall>x \<in> set (submissions s). s_id x < next_id s'" by auto
  with assms(1,2) show ?thesis by (simp add: submissions_ok_def list_all_iff)
qed

lemma updated_submission_cols:
  "map s_id (map (\<lambda>x. if P x then apply_submission_updates up x else x) xs) = map s_id xs"
  "map (\<lambda>x. (s_assignment_id x, s_student_id x))
     (map (\<lambda>x. if P x then apply_submission_updates up x else x) xs) =
   map (\<lambda>x. (s_assignment_id x, s_student_id x)) xs"
  "list_all (\<lambda>x. s_id x < n) (map (\<lambda>x. if P x then apply_submission_updates up x else x) xs) =
   list_all (\<lambda>x. s_id x < n) xs"
  by (induction xs) (simp_all add: apply_submission_updates_def)

lemma ok_update_submissions:
  assumes "submissions_ok s"
  shows "submissions_ok (update_submissions up P s)"
proof -
  let ?g = "\<lambda>x. if P x then apply_submission_updates up x else x"
  have "submissions (update_submissions up P s) = map ?g (submissions s)"
    "next_id (update_submissions up P s) = next_id s"
    by (simp_all add: update_submissions_def)
  with assms show ?thesis unfolding submissions_ok_def by (simp only: updated_submission_cols)
qed

lemma subs_register:
  "submissions (snd (snd (register hash rq body now s))) = submissions s \<and>
   next_id s \<le> next_id (snd (snd (register hash rq body now s)))"
  by (simp add: register_def insert_user_def Let_def split: option.splits)

lemma subs_post_course:
  "submissions (snd (post_course rq body now s)) = submissions s \<and>
   next_id s \<le> next_id (snd (post_course rq body now s))"
  by (simp add: post_course_def post_course_handler_def insert_course_def Let_def
      split: option.splits)

lemma subs_put_course:
  "submissions (snd (put_course rq cid body now s)) = submissions s \<and>
   next_id s \<le> next_id (snd (put_course rq cid body now s))"
  by (simp add: put_course_def put_course_handler_def update_courses_def Let_def
      split: option.splits)

lemma subs_delete_course:
  "submissions (snd (delete_course rq cid now s)) = submissions s \<and>
   next_id s \<le> next_id (snd (delete_course rq cid now s))"
  by (simp add: delete_course_def delete_course_handler_def update_courses_def Let_def
      split: option.splits)

lemma subs_post_enroll:
  "submissions (snd (post_enroll rq cid now s)) = submissions s \<and>
   next_id s \<le> next_id (snd (post_enroll rq cid now s))"
  by (simp add: post_enroll_def post_enroll_handler_def insert_enrollment_def Let_def
      split: option.splits)

lemma subs_delete_unenroll:
  "submissions (snd (delete_unenroll rq cid s)) = submissions s \<and>
   next_id s \<le> next_id (snd (delete_unenroll rq cid s))"
  by (simp add: delete_unenroll_def delete_unenroll_handler_def split: option.splits)

lemma subs_post_assignment:
  "submissions (snd (post_assignment rq body s)) = submissions s \<and>
   next_id s \<le> next_id (snd (post_assignment rq body s))"
  by (simp add: post_assignment_def post_assignment_handler_def insert_assignment_def Let_def
      split: option.splits)

lemma subs_put_assignment:
  "submissions (snd (put_assignment rq aid body s)) = submissions s \<and>
   next_id s \<le> next_id (snd (put_assignment rq aid body s))"
  by (simp add: put_assignment_def put_assignment_handler_def update_assignments_def Let_def
      split: option.splits)

lemma subs_delete_assignment:
  "submissions (snd (delete_assignment rq aid s)) = submissions s \<and>
   next_id s \<le> next_id (snd (delete_assignment rq aid s))"
  by (simp add: delete_assignment_def delete_assignment_handler_def split: option.splits)

lemma subs_get_conversation:
  "submissions (snd (get_conversation rq pid s)) = submissions s \<and>
   next_id s \<le> next_id (snd (get_conversation rq pid s))"
  by (simp add: get_conversation_def get_conversation_handler_def Let_def split: option.splits)

lemma subs_post_send:
  "submissions (snd (post_send rq rid content now s)) = submissions s \<and>
   next_id s \<le> next_id (snd (post_send rq rid content now s))"
  by (simp add: post_send_def post_send_handler_def insert_message_def Let_def
      split: option.splits)

lemma subs_put_user:
  "submissions (snd (put_user rq uid body s)) = submissions s \<and>
   next_id s \<le> next_id (snd (put_user rq uid body s))"
  by (simp add: put_user_def put_user_handler_def update_users_def Let_def split: option.splits)

lemma subs_delete_user:
  "submissions (snd (delete_user rq uid s)) = submissions s \<and>
   next_id s \<le> next_id (snd (delete_user rq uid s))"
  by (simp add: delete_user_def delete_user_handler_def split: option.splits)

lemma subs_admin_update:
  "submissions (snd (admin_update msg up P P' rq s)) = submissions s \<and>
   next_id s \<le> next_id (snd (admin_update msg up P P' rq s))"
  by (simp add: admin_update_def update_users_def Let_def split: option.splits)

lemma ok_unchanged:
  assumes "submissions_ok s"
    and "submissions s' = submissions s \<and> next_id s \<le> next_id s'"
  shows "submissions_ok s'"
  using assms(1) assms(2) [THEN conjunct1] assms(2) [THEN conjunct2] by (rule ok_same_submissions)

lemma ok_insert_submission:
  assumes "submissions_ok s"
    and "single (filter (\<lambda>x. s_assignment_id x = aid \<and> s_student_id x = uid) (submissions s)) = None"
    and "s_id x = next_id s" and "s_assignment_id x = aid" and "s_student_id x = uid"
  shows "submissions_ok (s\<lparr> submissions := submissions s @ [x], next_id := Suc (next_id s) \<rparr>)"
proof -
  let ?P = "\<lambda>x. s_assignment_id x = aid \<and> s_student_id x = uid"
  note h = submissions_ok_hyps [OF assms(1)]
  have "length (filter ?P (submissions s)) \<le> 1" by (rule h(3))
  moreover from assms(2) have "length (filter ?P (submissions s)) \<noteq> 1"
    by (auto simp: single_def length_Suc_conv split: list.splits)
  ultimately have "length (filter ?P (submissions s)) = 0" by arith
  then have "filter ?P (submissions s) = []" by (simp only: length_0_conv)
  then have "\<forall>y \<in> set (submissions s). \<not> ?P y" by (simp add: filter_empty_conv)
  then have fresh_key: "(aid, uid) \<notin> set (map (\<lambda>x. (s_assignment_id x, s_student_id x)) (submissions s))"
    by auto
  from assms(1) have b: "\<forall>y \<in> set (submissions s). s_id y < next_id s"
    and k: "distinct (map (\<lambda>x. (s_assignment_id x, s_student_id x)) (submissions s))"
    by (simp_all add: submissions_ok_def list_all_iff)
  from b have b': "\<forall>y \<in> set (submissions s). s_id y < Suc (next_id s)" by auto
  show ?thesis
    unfolding submissions_ok_def list_all_iff
    using h(1) h(2) fresh_key k b' assms(3,4,5) by simp
qed

lemma ok_post_submit_handler:
  assumes "submissions_ok s"
  shows "submissions_ok (snd (post_submit_handler su aid content now s))"
  using post_submit_handler_store [of su aid content now s]
proof (elim disjE exE conjE)
  assume "snd (post_submit_handler su aid content now s) = s"
  with assms show ?thesis by simp
next
  fix up P
  assume "snd (post_submit_handler su aid content now s) = update_submissions up P s"
  with assms show ?thesis by (simp add: ok_update_submissions)
next
  fix a
  assume n: "single (filter (\<lambda>x. s_assignment_id x = aid \<and> s_student_id x = su_id su)
                  (submissions s)) = None"
    and r: "snd (post_submit_handler su aid content now s) =
          s\<lparr> submissions := submissions s @
                 [\<lparr> s_id = next_id s, s_assignment_id = aid, s_student_id = su_id su,
                    s_content = content, s_submitted_at = now, s_grade = None,
                    s_feedback = JNull, s_graded_at = None \<rparr>],
             next_id := Suc (next_id s) \<rparr>"
  show ?thesis unfolding r using assms n by (rule ok_insert_submission) simp_all
qed

lemma ok_post_submit:
  assumes "submissions_ok s"
  shows "submissions_ok (snd (post_submit rq aid content now s))"
proof (cases "\<exists>su. post_submit rq aid content now s = post_submit_handler su aid content now s")
  case False
  then have "snd (post_submit rq aid content now s) = s"
    by (auto simp: post_submit_def split: option.splits)
  with assms show ?thesis by simp
next
  case True
  then obtain su where "post_submit rq aid content now s = post_submit_handler su aid content now s"
    by blast
  then show ?thesis using ok_post_submit_handler [OF assms, of su aid content now] by simp
qed

lemma ok_put_grade:
  assumes "submissions_ok s"
  shows "submissions_ok (snd (put_grade parseInt rq sid grade feedback now s))"
  using put_grade_store [of parseInt rq sid grade feedback now s]
proof (elim disjE exE)
  assume "snd (put_grade parseInt rq sid grade feedback now s) = s"
  with assms show ?thesis by simp
next
  fix up
  assume "snd (put_grade parseInt rq sid grade feedback now s) =
      update_submissions up (\<lambda>x. s_id x = sid) s"
  with assms show ?thesis by (simp add: ok_update_submissions)
qed

lemma ok_step:
  assumes "submissions_ok s"
  shows "submissions_ok (api_step op s)"
proof (cases op)
  case (Register hash rq body now)
  show ?thesis unfolding Register api_step.simps using assms subs_register by (rule ok_unchanged)
next
  case (PostCourse rq body now)
  show ?thesis unfolding PostCourse api_step.simps using assms subs_post_course by (rule ok_unchanged)
next
  case (PutCourse rq cid body now)
  show ?thesis unfolding PutCourse api_step.simps using assms subs_put_course by (rule ok_unchanged)
next
  case (DeleteCourse rq cid now)
  show ?thesis unfolding DeleteCourse api_step.simps using assms subs_delete_course
    by (rule ok_unchanged)
next
  case (PostEnroll rq cid now)
  show ?thesis unfolding PostEnroll api_step.simps using assms subs_post_enroll by (rule ok_unchanged)
next
  case (DeleteUnenroll rq cid)
  show ?thesis unfolding DeleteUnenroll api_step.simps using assms subs_delete_unenroll
    by (rule ok_unchanged)
next
  case (PostAssignment rq body)
  show ?thesis unfolding PostAssignment api_step.simps using assms subs_post_assignment
    by (rule ok_unchanged)
next
  case (PutAssignment rq aid body)
  show ?thesis unfolding PutAssignment api_step.simps using assms subs_put_assignment
    by (rule ok_unchanged)
next
  case (DeleteAssignment rq aid)
  show ?thesis unfolding DeleteAssignment api_step.simps using assms subs_delete_assignment
    by (rule ok_unchanged)
next
  case (PostSubmit rq aid content now)
  show ?thesis unfolding PostSubmit api_step.simps using assms by (rule ok_post_submit)
next
  case (PutGrade parseInt rq sid grade feedback now)
  show ?thesis unfolding PutGrade api_step.simps using assms by (rule ok_put_grade)
next
  case (GetConversation rq pid)
  show ?thesis unfolding GetConversation api_step.simps using assms subs_get_conversation
    by (rule ok_unchanged)
next
  case (PostSend rq rid content now)
  show ?thesis unfolding PostSend api_step.simps using assms subs_post_send by (rule ok_unchanged)
next
  case (PutUser rq uid body)
  show ?thesis unfolding PutUser api_step.simps using assms subs_put_user by (rule ok_unchanged)
next
  case (DeleteUser rq uid)
  show ?thesis unfolding DeleteUser api_step.simps using assms subs_delete_user by (rule ok_unchanged)
next
  case (PostApprove rq uid)
  show ?thesis unfolding PostApprove api_step.simps post_approve_def
    using assms subs_admin_update by (rule ok_unchanged)
next
  case (PostReject rq uid)
  show ?thesis unfolding PostReject api_step.simps post_reject_def
    using assms subs_admin_update by (rule ok_unchanged)
next
  case (PostPromote rq uid)
  show ?thesis unfolding PostPromote api_step.simps post_promote_def
    using assms subs_admin_update by (rule ok_unchanged)
qed

lemma submissions_ok_run:
  "submissions_ok s \<Longrightarrow> submissions_ok (run ops s)"
proof (induction ops arbitrary: s)
  case Nil
  then show ?case by (simp add: run_def)
next
  case (Cons op ops)
  from Cons.prems have "submissions_ok (api_step op s)" by (rule ok_step)
  then have "submissions_ok (run ops (api_step op s))" by (rule Cons.IH)
  moreover have "run (op # ops) s = run ops (api_step op s)" by (simp add: run_def)
  ultimately show ?case by simp
qed

lemma submissions_ok_seed: "submissions_ok seed_store"
  by (simp add: submissions_ok_def seed_store_def)

end
